theory Spec2Isabelle
  imports Main "HOL-Library.Word"
begin

unbundle bit_operations_syntax

section \<open>Data model of liblight/lights.c\<close>

text \<open>
  Modelled from the spec: the declaration of \<^verbatim>\<open>struct light_state_t\<close> lives in
  \<^verbatim>\<open>hardware/lights.h\<close>, which is not among the sources. The fields are the ones
  lights.c reads (\<^verbatim>\<open>color\<close>, \<^verbatim>\<open>flashMode\<close>, \<^verbatim>\<open>flashOnMS\<close>, \<^verbatim>\<open>flashOffMS\<close>) and the
  spec's LightState lists (\<^verbatim>\<open>brightnessMode\<close>). \<^verbatim>\<open>color\<close> is an \<^verbatim>\<open>unsigned int\<close>, the
  others are \<^verbatim>\<open>int\<close>; all are 32-bit words here.
\<close>

record light_state_t =
  color :: "32 word"
  flashMode :: "32 word"
  flashOnMS :: "32 word"
  flashOffMS :: "32 word"
  brightnessMode :: "32 word"

text \<open>A \<^verbatim>\<open>struct light_device_t *\<close>: \<open>None\<close> is the NULL pointer, \<open>Some a\<close> an address.\<close>

type_synonym light_device_ptr = "nat option"

text \<open>The only mutex the file declares.\<close>

datatype mutex = G_lock

text \<open>
  What a call does to the outside, in order: taking and releasing a mutex, and every
  call of \<^verbatim>\<open>write_int\<close> with its path and value (whether or not the write succeeds).
\<close>

datatype event = MutexLock mutex | MutexUnlock mutex | WriteInt string int

text \<open>
  The log: the \<^verbatim>\<open>ALOGE\<close> of \<^verbatim>\<open>write_int\<close> with the path it prints, and the \<^verbatim>\<open>ALOGD\<close> of
  \<^verbatim>\<open>set_speaker_light_locked\<close> with the seven values it prints.
\<close>

datatype log_entry =
    ALOGE_open_failed string
  | ALOGD_speaker "32 word" "32 word" int int int "32 word" "32 word"

text \<open>
  What the operating system answers to one \<^verbatim>\<open>write_int\<close>: \<^verbatim>\<open>open\<close> fails with an errno,
  or \<^verbatim>\<open>open\<close> succeeds and \<^verbatim>\<open>write\<close> returns -1 with an errno, or both succeed.
\<close>

datatype io_outcome = IoOk | OpenFails int | WriteFails int

text \<open>
  The state of the process and of its environment: the three static light states, the
  static flag \<^verbatim>\<open>already_warned\<close> of \<^verbatim>\<open>write_int\<close>, the value each sysfs node holds (the
  last value written to it with success), the answers of the operating system (the
  answer to the \<open>n\<close>-th call of \<^verbatim>\<open>write_int\<close> on a path), the number of calls of
  \<^verbatim>\<open>write_int\<close> so far, the log and the trace of events.
\<close>

record hal =
  g_attention :: light_state_t
  g_notification :: light_state_t
  g_battery :: light_state_t
  already_warned :: int
  sinks :: "string \<Rightarrow> int"
  io :: "nat \<Rightarrow> string \<Rightarrow> io_outcome"
  calls :: nat
  logs :: "log_entry list"
  trace :: "event list"

definition RED_LED_FILE :: string where
  "RED_LED_FILE = ''/sys/class/leds/led:rgb_red/brightness''"

definition GREEN_LED_FILE :: string where
  "GREEN_LED_FILE = ''/sys/class/leds/led:rgb_green/brightness''"

definition BLUE_LED_FILE :: string where
  "BLUE_LED_FILE = ''/sys/class/leds/led:rgb_blue/brightness''"

definition LCD_FILE :: string where
  "LCD_FILE = ''/sys/class/leds/lcd-backlight/brightness''"

definition RED_BLINK_FILE :: string where
  "RED_BLINK_FILE = ''/sys/class/leds/led:rgb_red/rgbbreath''"

definition GREEN_BLINK_FILE :: string where
  "GREEN_BLINK_FILE = ''/sys/class/leds/led:rgb_green/rgbbreath''"

definition BLUE_BLINK_FILE :: string where
  "BLUE_BLINK_FILE = ''/sys/class/leds/led:rgb_blue/rgbbreath''"

definition BUTTONS_FILE :: string where
  "BUTTONS_FILE = ''/sys/class/leds/button-backlight/brightness''"

section \<open>The functions\<close>

text \<open>
  \<^verbatim>\<open>write_int\<close>: the result is the returned \<^verbatim>\<open>int\<close> and the new state. \<^verbatim>\<open>errno\<close> is
  read after \<^verbatim>\<open>close\<close> (and after \<^verbatim>\<open>ALOGE\<close>); it is taken to be still the code of the
  failed \<^verbatim>\<open>write\<close> (or \<^verbatim>\<open>open\<close>).
\<close>

definition write_int :: "string \<Rightarrow> int \<Rightarrow> hal \<Rightarrow> int \<times> hal" where
  "write_int path v s =
     (let s1 = s\<lparr>calls := Suc (calls s), trace := trace s @ [WriteInt path v]\<rparr>
      in case io s (calls s) path of
           IoOk \<Rightarrow> (0, s1\<lparr>sinks := (sinks s)(path := v)\<rparr>)
         | WriteFails e \<Rightarrow> (- e, s1)
         | OpenFails e \<Rightarrow>
             (- e,
              if already_warned s = 0
              then s1\<lparr>logs := logs s @ [ALOGE_open_failed path], already_warned := 1\<rparr>
              else s1))"

text \<open>The masked value is below \<open>2^24\<close>, so its conversion to \<^verbatim>\<open>int\<close> is its value.\<close>

definition is_lit :: "light_state_t \<Rightarrow> int" where
  "is_lit state = uint (color state AND 0x00ffffff)"

text \<open>
  \<^verbatim>\<open>color\<close> is a non-negative \<^verbatim>\<open>int\<close> after the mask, so \<^verbatim>\<open>>>\<close> is the logical shift;
  the arithmetic is that of 32-bit \<^verbatim>\<open>int\<close>, and the result is read as signed.
\<close>

definition rgb_to_brightness :: "light_state_t \<Rightarrow> int" where
  "rgb_to_brightness state =
     (let c = color state AND 0x00ffffff
      in sint (drop_bit 8
           (77 * (drop_bit 16 c AND 0xff)
            + 150 * (drop_bit 8 c AND 0xff)
            + 29 * (c AND 0xff))))"

text \<open>The three results of \<^verbatim>\<open>write_int\<close> are discarded, as in the source.\<close>

definition set_battery_light_locked ::
    "light_device_ptr \<Rightarrow> light_state_t \<Rightarrow> hal \<Rightarrow> int \<times> hal" where
  "set_battery_light_locked dev state s =
     (let colorRGB = color state;
          red = uint (drop_bit 16 colorRGB AND 0xFF);
          green = uint (drop_bit 8 colorRGB AND 0xFF);
          blue = uint (colorRGB AND 0xFF);
          s = snd (write_int RED_LED_FILE red s);
          s = snd (write_int GREEN_LED_FILE green s);
          s = snd (write_int BLUE_LED_FILE blue s)
      in (0, s))"

text \<open>
  The state argument is a pointer that may be NULL (\<open>None\<close>): that is the clear step.
\<close>

definition set_speaker_light_locked ::
    "light_device_ptr \<Rightarrow> light_state_t option \<Rightarrow> hal \<Rightarrow> int \<times> hal" where
  "set_speaker_light_locked dev state s =
     (if dev = None then (- 1, s)
      else case state of
        None \<Rightarrow>
          (let s = snd (write_int RED_LED_FILE 0 s);
               s = snd (write_int GREEN_LED_FILE 0 s);
               s = snd (write_int BLUE_LED_FILE 0 s);
               s = snd (write_int RED_BLINK_FILE 0 s);
               s = snd (write_int GREEN_BLINK_FILE 0 s);
               s = snd (write_int BLUE_BLINK_FILE 0 s)
           in (0, s))
      | Some st \<Rightarrow>
          (let blink = (if flashOnMS st \<noteq> 1 then 1 else 0 :: int);
               colorRGB = color st;
               red = uint (drop_bit 16 colorRGB AND 0xFF);
               green = uint (drop_bit 8 colorRGB AND 0xFF);
               blue = uint (colorRGB AND 0xFF);
               s = s\<lparr>logs := logs s @
                     [ALOGD_speaker (flashMode st) colorRGB red green blue
                        (flashOnMS st) (flashOffMS st)]\<rparr>
           in if blink \<noteq> 0 then
                (let s = snd (write_int RED_LED_FILE 0 s);
                     s = snd (write_int GREEN_LED_FILE 0 s);
                     s = snd (write_int BLUE_LED_FILE 0 s);
                     s = (if red \<noteq> 0 then snd (write_int RED_BLINK_FILE blink s) else s);
                     s = (if green \<noteq> 0 then snd (write_int GREEN_BLINK_FILE blink s) else s);
                     s = (if blue \<noteq> 0 then snd (write_int BLUE_BLINK_FILE blink s) else s)
                 in (0, s))
              else
                (let s = snd (write_int RED_LED_FILE red s);
                     s = snd (write_int GREEN_LED_FILE green s);
                     s = snd (write_int BLUE_LED_FILE blue s)
                 in (0, s))))"

definition handle_speaker_light_locked :: "light_device_ptr \<Rightarrow> hal \<Rightarrow> hal" where
  "handle_speaker_light_locked dev s =
     (let s = snd (set_speaker_light_locked dev None s)
      in if is_lit (g_attention s) \<noteq> 0 then
           snd (set_speaker_light_locked dev (Some (g_attention s)) s)
         else if is_lit (g_notification s) \<noteq> 0 then
           snd (set_speaker_light_locked dev (Some (g_notification s)) s)
         else
           snd (set_battery_light_locked dev (g_battery s) s))"

text \<open>
  One thread runs at a time in this model, so taking the mutex always succeeds; the
  trace records which mutex is taken and released.
\<close>

definition pthread_mutex_lock :: "mutex \<Rightarrow> hal \<Rightarrow> hal" where
  "pthread_mutex_lock m s = s\<lparr>trace := trace s @ [MutexLock m]\<rparr>"

definition pthread_mutex_unlock :: "mutex \<Rightarrow> hal \<Rightarrow> hal" where
  "pthread_mutex_unlock m s = s\<lparr>trace := trace s @ [MutexUnlock m]\<rparr>"

text \<open>
  The five \<^verbatim>\<open>set_light\<close> functions read \<^verbatim>\<open>*state\<close> without a check: the argument is the
  state a valid pointer refers to.
\<close>

definition set_light_backlight ::
    "light_device_ptr \<Rightarrow> light_state_t \<Rightarrow> hal \<Rightarrow> int \<times> hal" where
  "set_light_backlight dev state s =
     (let brightness = rgb_to_brightness state;
          s = pthread_mutex_lock G_lock s;
          (err, s) = write_int LCD_FILE brightness s;
          s = pthread_mutex_unlock G_lock s
      in (err, s))"

definition set_light_buttons ::
    "light_device_ptr \<Rightarrow> light_state_t \<Rightarrow> hal \<Rightarrow> int \<times> hal" where
  "set_light_buttons dev state s =
     (let brightness = rgb_to_brightness state;
          s = pthread_mutex_lock G_lock s;
          (err, s) = write_int BUTTONS_FILE brightness s;
          s = pthread_mutex_unlock G_lock s
      in (err, s))"

definition set_light_attention ::
    "light_device_ptr \<Rightarrow> light_state_t \<Rightarrow> hal \<Rightarrow> int \<times> hal" where
  "set_light_attention dev state s =
     (let s = pthread_mutex_lock G_lock s;
          s = s\<lparr>g_attention := state\<rparr>;
          s = handle_speaker_light_locked dev s;
          s = pthread_mutex_unlock G_lock s
      in (0, s))"

definition set_light_notifications ::
    "light_device_ptr \<Rightarrow> light_state_t \<Rightarrow> hal \<Rightarrow> int \<times> hal" where
  "set_light_notifications dev state s =
     (let s = pthread_mutex_lock G_lock s;
          s = s\<lparr>g_notification := state\<rparr>;
          s = handle_speaker_light_locked dev s;
          s = pthread_mutex_unlock G_lock s
      in (0, s))"

definition set_light_battery ::
    "light_device_ptr \<Rightarrow> light_state_t \<Rightarrow> hal \<Rightarrow> int \<times> hal" where
  "set_light_battery dev state s =
     (let s = pthread_mutex_lock G_lock s;
          s = s\<lparr>g_battery := state\<rparr>;
          s = handle_speaker_light_locked dev s;
          s = pthread_mutex_unlock G_lock s
      in (0, s))"

section \<open>Vocabulary of the statements\<close>

text \<open>
  The physical output: the values held by the three solid sinks and the three blink
  sinks of the colour LED.
\<close>

record physical_output =
  red_solid :: int
  green_solid :: int
  blue_solid :: int
  red_blink :: int
  green_blink :: int
  blue_blink :: int

definition physical :: "hal \<Rightarrow> physical_output" where
  "physical s =
     \<lparr>red_solid = sinks s RED_LED_FILE, green_solid = sinks s GREEN_LED_FILE,
      blue_solid = sinks s BLUE_LED_FILE, red_blink = sinks s RED_BLINK_FILE,
      green_blink = sinks s GREEN_BLINK_FILE, blue_blink = sinks s BLUE_BLINK_FILE\<rparr>"

text \<open>
  The spec's words (sections 4.2 and 4.4), for comparison with the code: the three 8-bit
  components, \<open>isLit\<close>, the winner by fixed priority, and the solid and blink renders.
\<close>

datatype slot = Attention | Notification | Battery

definition spec_red :: "light_state_t \<Rightarrow> int" where
  "spec_red st = uint (color st) div 65536 mod 256"

definition spec_green :: "light_state_t \<Rightarrow> int" where
  "spec_green st = uint (color st) div 256 mod 256"

definition spec_blue :: "light_state_t \<Rightarrow> int" where
  "spec_blue st = uint (color st) mod 256"

definition spec_isLit :: "light_state_t \<Rightarrow> bool" where
  "spec_isLit st = (uint (color st) mod 16777216 \<noteq> 0)"

definition spec_winner :: "hal \<Rightarrow> slot" where
  "spec_winner s =
     (if spec_isLit (g_attention s) then Attention
      else if spec_isLit (g_notification s) then Notification
      else Battery)"

definition spec_slot_state :: "hal \<Rightarrow> slot \<Rightarrow> light_state_t" where
  "spec_slot_state s sl =
     (case sl of Attention \<Rightarrow> g_attention s | Notification \<Rightarrow> g_notification s
      | Battery \<Rightarrow> g_battery s)"

definition spec_solid_render :: "light_state_t \<Rightarrow> physical_output" where
  "spec_solid_render st =
     \<lparr>red_solid = spec_red st, green_solid = spec_green st, blue_solid = spec_blue st,
      red_blink = 0, green_blink = 0, blue_blink = 0\<rparr>"

definition spec_blink_render :: "light_state_t \<Rightarrow> physical_output" where
  "spec_blink_render st =
     \<lparr>red_solid = 0, green_solid = 0, blue_solid = 0,
      red_blink = (if spec_red st \<noteq> 0 then 1 else 0),
      green_blink = (if spec_green st \<noteq> 0 then 1 else 0),
      blue_blink = (if spec_blue st \<noteq> 0 then 1 else 0)\<rparr>"

definition spec_render :: "slot \<Rightarrow> light_state_t \<Rightarrow> physical_output" where
  "spec_render sl st =
     (case sl of
        Battery \<Rightarrow> spec_solid_render st
      | _ \<Rightarrow> if flashOnMS st = 1 then spec_solid_render st else spec_blink_render st)"

definition spec_output :: "hal \<Rightarrow> physical_output" where
  "spec_output s = spec_render (spec_winner s) (spec_slot_state s (spec_winner s))"

text \<open>
  The environment: every write succeeds; or, weaker, the answer of a sink does not
  change with time. \<open>put\<close> is the effect of one write on the sinks under such a fixed
  answer.
\<close>

definition writes_succeed :: "hal \<Rightarrow> bool" where
  "writes_succeed s = (\<forall>n p. io s n p = IoOk)"

definition stationary :: "hal \<Rightarrow> bool" where
  "stationary s = (\<forall>n p. io s n p = io s 0 p)"

definition put :: "(string \<Rightarrow> io_outcome) \<Rightarrow> string \<Rightarrow> int \<Rightarrow> (string \<Rightarrow> int) \<Rightarrow> string \<Rightarrow> int" where
  "put f p v m = (if f p = IoOk then m(p := v) else m)"


section \<open>Further vocabulary and example states\<close>

text \<open>
  The channel store (the three static light states); a light state that is off; the state
  of the process when it starts, with statics zeroed, in an environment \<open>f\<close>; what
  \<^verbatim>\<open>write_int\<close> returns for an answer of the operating system, and the positivity of
  the errno in it; three light states.
\<close>

definition store :: "hal \<Rightarrow> light_state_t \<times> light_state_t \<times> light_state_t" where
  "store s = (g_attention s, g_notification s, g_battery s)"

definition unlit :: light_state_t where
  "unlit = \<lparr>color = 0, flashMode = 0, flashOnMS = 0, flashOffMS = 0, brightnessMode = 0\<rparr>"

definition boot :: "(nat \<Rightarrow> string \<Rightarrow> io_outcome) \<Rightarrow> hal" where
  "boot f = \<lparr>g_attention = unlit, g_notification = unlit, g_battery = unlit,
            already_warned = 0, sinks = (\<lambda>p. 0), io = f, calls = 0, logs = [], trace = []\<rparr>"

fun errno_valid :: "io_outcome \<Rightarrow> bool" where
  "errno_valid IoOk = True"
| "errno_valid (OpenFails e) = (0 < e)"
| "errno_valid (WriteFails e) = (0 < e)"

fun outcome_code :: "io_outcome \<Rightarrow> int" where
  "outcome_code IoOk = 0"
| "outcome_code (OpenFails e) = - e"
| "outcome_code (WriteFails e) = - e"

definition red_flash :: light_state_t where
  "red_flash = \<lparr>color = 0xFF0000, flashMode = 1, flashOnMS = 500, flashOffMS = 500,
                 brightnessMode = 0\<rparr>"

definition green_steady :: light_state_t where
  "green_steady = \<lparr>color = 0x00FF00, flashMode = 0, flashOnMS = 1, flashOffMS = 0,
                    brightnessMode = 0\<rparr>"

definition charging :: light_state_t where
  "charging = \<lparr>color = 0xFF112233, flashMode = 1, flashOnMS = 500, flashOffMS = 500,
                brightnessMode = 0\<rparr>"

text \<open>
  The effect of each function on the sinks when the answer \<open>f\<close> of each sink is fixed:
  the writes of the clear step, of the solid render, of the blink render, of
  \<^verbatim>\<open>set_speaker_light_locked\<close> and of \<^verbatim>\<open>handle_speaker_light_locked\<close>, as compositions of
  \<open>put\<close>.
\<close>

definition clear_effect :: "(string \<Rightarrow> io_outcome) \<Rightarrow> (string \<Rightarrow> int) \<Rightarrow> string \<Rightarrow> int" where
  "clear_effect f m =
     put f BLUE_BLINK_FILE 0 (put f GREEN_BLINK_FILE 0 (put f RED_BLINK_FILE 0
       (put f BLUE_LED_FILE 0 (put f GREEN_LED_FILE 0 (put f RED_LED_FILE 0 m)))))"

definition solid_effect ::
    "(string \<Rightarrow> io_outcome) \<Rightarrow> light_state_t \<Rightarrow> (string \<Rightarrow> int) \<Rightarrow> string \<Rightarrow> int" where
  "solid_effect f st m =
     put f BLUE_LED_FILE (spec_blue st) (put f GREEN_LED_FILE (spec_green st)
       (put f RED_LED_FILE (spec_red st) m))"

definition put_if :: "bool \<Rightarrow> (string \<Rightarrow> io_outcome) \<Rightarrow> string \<Rightarrow> int \<Rightarrow> (string \<Rightarrow> int) \<Rightarrow> string \<Rightarrow> int" where
  "put_if c f p v m = (if c then put f p v m else m)"

definition blink_effect ::
    "(string \<Rightarrow> io_outcome) \<Rightarrow> light_state_t \<Rightarrow> (string \<Rightarrow> int) \<Rightarrow> string \<Rightarrow> int" where
  "blink_effect f st m =
     put_if (spec_blue st \<noteq> 0) f BLUE_BLINK_FILE 1
       (put_if (spec_green st \<noteq> 0) f GREEN_BLINK_FILE 1
         (put_if (spec_red st \<noteq> 0) f RED_BLINK_FILE 1
           (put f BLUE_LED_FILE 0 (put f GREEN_LED_FILE 0 (put f RED_LED_FILE 0 m)))))"

definition speaker_effect ::
    "light_device_ptr \<Rightarrow> light_state_t option \<Rightarrow> (string \<Rightarrow> io_outcome) \<Rightarrow> (string \<Rightarrow> int)
      \<Rightarrow> string \<Rightarrow> int" where
  "speaker_effect dev sto f m =
     (if dev = None then m
      else case sto of None \<Rightarrow> clear_effect f m
           | Some st \<Rightarrow> if flashOnMS st = 1 then solid_effect f st m else blink_effect f st m)"

definition handle_effect ::
    "light_device_ptr \<Rightarrow> hal \<Rightarrow> (string \<Rightarrow> io_outcome) \<Rightarrow> (string \<Rightarrow> int) \<Rightarrow> string \<Rightarrow> int" where
  "handle_effect dev s f m =
     (case spec_winner s of
        Battery \<Rightarrow> solid_effect f (g_battery s) (speaker_effect dev None f m)
      | sl \<Rightarrow> speaker_effect dev (Some (spec_slot_state s sl)) f (speaker_effect dev None f m))"

text \<open>
  The paths of the \<^verbatim>\<open>ALOGE\<close> entries of the log, in order; a sequence of calls of
  \<^verbatim>\<open>write_int\<close>; the path of the first call in such a sequence whose \<^verbatim>\<open>open\<close> fails, from
  call number \<open>n\<close> on; an environment where every \<^verbatim>\<open>open\<close> fails with ENOENT and one where
  every write succeeds; the mutexes taken in a trace; the events that are writes.
\<close>

fun aloge_paths :: "log_entry list \<Rightarrow> string list" where
  "aloge_paths [] = []"
| "aloge_paths (ALOGE_open_failed p # l) = p # aloge_paths l"
| "aloge_paths (ALOGD_speaker m c r g b on off # l) = aloge_paths l"

definition error_log :: "hal \<Rightarrow> string list" where
  "error_log s = aloge_paths (logs s)"

fun write_ints :: "(string \<times> int) list \<Rightarrow> hal \<Rightarrow> hal" where
  "write_ints [] s = s"
| "write_ints ((p, v) # ws) s = write_ints ws (snd (write_int p v s))"

fun first_open_failure ::
    "(nat \<Rightarrow> string \<Rightarrow> io_outcome) \<Rightarrow> nat \<Rightarrow> (string \<times> int) list \<Rightarrow> string option" where
  "first_open_failure f n [] = None"
| "first_open_failure f n ((p, v) # ws) =
     (case f n p of OpenFails e \<Rightarrow> Some p | _ \<Rightarrow> first_open_failure f (Suc n) ws)"

definition no_sysfs :: "nat \<Rightarrow> string \<Rightarrow> io_outcome" where
  "no_sysfs n p = OpenFails 2"

definition all_ok :: "nat \<Rightarrow> string \<Rightarrow> io_outcome" where
  "all_ok n p = IoOk"

fun locks_taken :: "event list \<Rightarrow> mutex list" where
  "locks_taken [] = []"
| "locks_taken (MutexLock m # es) = m # locks_taken es"
| "locks_taken (MutexUnlock m # es) = locks_taken es"
| "locks_taken (WriteInt p v # es) = locks_taken es"

fun is_write :: "event \<Rightarrow> bool" where
  "is_write (WriteInt p v) = True"
| "is_write (MutexLock m) = False"
| "is_write (MutexUnlock m) = False"

section \<open>Colour components and brightness\<close>

lemma mask8_eq: "(0xff :: 32 word) = mask 8" by (simp add: mask_eq_exp_minus_1)
lemma mask24_eq: "(0xffffff :: 32 word) = mask 24" by (simp add: mask_eq_exp_minus_1)

lemma uint_red: "uint (drop_bit 16 (c::32 word) AND 0xff) = (uint c div 65536) mod 256"
  by (simp add: mask8_eq take_bit_eq_mod drop_bit_eq_div uint_div uint_mod
        flip: take_bit_eq_mask)

lemma uint_green: "uint (drop_bit 8 (c::32 word) AND 0xff) = (uint c div 256) mod 256"
  by (simp add: mask8_eq take_bit_eq_mod drop_bit_eq_div uint_div uint_mod
        flip: take_bit_eq_mask)

lemma uint_blue: "uint ((c::32 word) AND 0xff) = uint c mod 256"
  by (simp add: mask8_eq take_bit_eq_mod uint_mod flip: take_bit_eq_mask)

lemma uint_low24: "uint ((c::32 word) AND 0xffffff) = uint c mod 16777216"
  by (simp add: mask24_eq take_bit_eq_mod uint_mod flip: take_bit_eq_mask)

lemma luma_no_overflow: 
  fixes r g b :: "32 word"
  assumes "uint r < 256" "uint g < 256" "uint b < 256"
  shows "sint (drop_bit 8 (77 * r + 150 * g + 29 * b)) = (77 * uint r + 150 * uint g + 29 * uint b) div 256"
proof -
  let ?n = "77 * uint r + 150 * uint g + 29 * uint b"
  have r0: "0 \<le> uint r" and g0: "0 \<le> uint g" and b0: "0 \<le> uint b" by simp_all
  have s: "uint (77 * r + 150 * g + 29 * b) = ?n"
    using assms r0 g0 b0 by (simp add: uint_word_ariths)
  have u: "uint (drop_bit 8 (77 * r + 150 * g + 29 * b)) = ?n div 256"
    by (simp add: s drop_bit_eq_div uint_div)
  have lt: "?n div 256 < 256" using assms by simp
  have "0 \<le> ?n" using r0 g0 b0 by simp
  then have ge: "0 \<le> ?n div 256" by (simp add: pos_imp_zdiv_nonneg_iff)
  have "signed_take_bit 31 (?n div 256) = ?n div 256"
    by (rule signed_take_bit_int_eq_self) (use lt ge in simp_all)
  then show ?thesis by (simp add: sint_uint u)
qed

lemma masked_red: "drop_bit 16 ((c::32 word) AND 0xffffff) AND 0xff = drop_bit 16 c AND 0xff"
  by (simp add: mask8_eq mask24_eq drop_bit_take_bit flip: take_bit_eq_mask)

lemma masked_green: "drop_bit 8 ((c::32 word) AND 0xffffff) AND 0xff = drop_bit 8 c AND 0xff"
  by (simp add: mask8_eq mask24_eq drop_bit_take_bit flip: take_bit_eq_mask)

lemma masked_blue: "((c::32 word) AND 0xffffff) AND 0xff = c AND 0xff"
  by (simp add: mask8_eq mask24_eq flip: take_bit_eq_mask)

lemma luma_bound:
  fixes r g b :: int
  assumes "0 \<le> r" "r < 256" "0 \<le> g" "g < 256" "0 \<le> b" "b < 256"
  shows "0 \<le> (77 * r + 150 * g + 29 * b) div 256 \<and> (77 * r + 150 * g + 29 * b) div 256 \<le> 255"
proof -
  have "0 \<le> 77 * r + 150 * g + 29 * b" using assms by simp
  then have "0 \<le> (77 * r + 150 * g + 29 * b) div 256"
    by (simp add: pos_imp_zdiv_nonneg_iff)
  moreover have "(77 * r + 150 * g + 29 * b) div 256 < 256" using assms by simp
  ultimately show ?thesis by simp
qed

lemma rgb_to_brightness_formula:
  "rgb_to_brightness st =
     (77 * (uint (color st) div 65536 mod 256)
      + 150 * (uint (color st) div 256 mod 256)
      + 29 * (uint (color st) mod 256)) div 256"
proof -
  let ?c = "color st"
  have r: "uint (drop_bit 16 ?c AND 0xff) = uint ?c div 65536 mod 256" by (rule uint_red)
  have g: "uint (drop_bit 8 ?c AND 0xff) = uint ?c div 256 mod 256" by (rule uint_green)
  have b: "uint (?c AND 0xff) = uint ?c mod 256" by (rule uint_blue)
  have "rgb_to_brightness st =
      (77 * uint (drop_bit 16 ?c AND 0xff) + 150 * uint (drop_bit 8 ?c AND 0xff)
        + 29 * uint (?c AND 0xff)) div 256"
    unfolding rgb_to_brightness_def Let_def masked_red masked_green masked_blue
  proof (rule luma_no_overflow)
    show "uint (drop_bit 16 ?c AND 0xff) < 256" unfolding r by simp
    show "uint (drop_bit 8 ?c AND 0xff) < 256" unfolding g by simp
    show "uint (?c AND 0xff) < 256" unfolding b by simp
  qed
  then show ?thesis unfolding r g b .
qed

lemma rgb_to_brightness_range: "0 \<le> rgb_to_brightness st \<and> rgb_to_brightness st \<le> 255"
  unfolding rgb_to_brightness_formula by (rule luma_bound) simp_all

section \<open>Effects of the functions\<close>

lemma path_neq [simp]:
  "RED_LED_FILE \<noteq> GREEN_LED_FILE" "RED_LED_FILE \<noteq> BLUE_LED_FILE"
  "RED_LED_FILE \<noteq> LCD_FILE" "RED_LED_FILE \<noteq> RED_BLINK_FILE"
  "RED_LED_FILE \<noteq> GREEN_BLINK_FILE" "RED_LED_FILE \<noteq> BLUE_BLINK_FILE"
  "RED_LED_FILE \<noteq> BUTTONS_FILE" "GREEN_LED_FILE \<noteq> RED_LED_FILE"
  "GREEN_LED_FILE \<noteq> BLUE_LED_FILE" "GREEN_LED_FILE \<noteq> LCD_FILE"
  "GREEN_LED_FILE \<noteq> RED_BLINK_FILE" "GREEN_LED_FILE \<noteq> GREEN_BLINK_FILE"
  "GREEN_LED_FILE \<noteq> BLUE_BLINK_FILE" "GREEN_LED_FILE \<noteq> BUTTONS_FILE"
  "BLUE_LED_FILE \<noteq> RED_LED_FILE" "BLUE_LED_FILE \<noteq> GREEN_LED_FILE"
  "BLUE_LED_FILE \<noteq> LCD_FILE" "BLUE_LED_FILE \<noteq> RED_BLINK_FILE"
  "BLUE_LED_FILE \<noteq> GREEN_BLINK_FILE" "BLUE_LED_FILE \<noteq> BLUE_BLINK_FILE"
  "BLUE_LED_FILE \<noteq> BUTTONS_FILE" "LCD_FILE \<noteq> RED_LED_FILE"
  "LCD_FILE \<noteq> GREEN_LED_FILE" "LCD_FILE \<noteq> BLUE_LED_FILE"
  "LCD_FILE \<noteq> RED_BLINK_FILE" "LCD_FILE \<noteq> GREEN_BLINK_FILE"
  "LCD_FILE \<noteq> BLUE_BLINK_FILE" "LCD_FILE \<noteq> BUTTONS_FILE"
  "RED_BLINK_FILE \<noteq> RED_LED_FILE" "RED_BLINK_FILE \<noteq> GREEN_LED_FILE"
  "RED_BLINK_FILE \<noteq> BLUE_LED_FILE" "RED_BLINK_FILE \<noteq> LCD_FILE"
  "RED_BLINK_FILE \<noteq> GREEN_BLINK_FILE" "RED_BLINK_FILE \<noteq> BLUE_BLINK_FILE"
  "RED_BLINK_FILE \<noteq> BUTTONS_FILE" "GREEN_BLINK_FILE \<noteq> RED_LED_FILE"
  "GREEN_BLINK_FILE \<noteq> GREEN_LED_FILE" "GREEN_BLINK_FILE \<noteq> BLUE_LED_FILE"
  "GREEN_BLINK_FILE \<noteq> LCD_FILE" "GREEN_BLINK_FILE \<noteq> RED_BLINK_FILE"
  "GREEN_BLINK_FILE \<noteq> BLUE_BLINK_FILE" "GREEN_BLINK_FILE \<noteq> BUTTONS_FILE"
  "BLUE_BLINK_FILE \<noteq> RED_LED_FILE" "BLUE_BLINK_FILE \<noteq> GREEN_LED_FILE"
  "BLUE_BLINK_FILE \<noteq> BLUE_LED_FILE" "BLUE_BLINK_FILE \<noteq> LCD_FILE"
  "BLUE_BLINK_FILE \<noteq> RED_BLINK_FILE" "BLUE_BLINK_FILE \<noteq> GREEN_BLINK_FILE"
  "BLUE_BLINK_FILE \<noteq> BUTTONS_FILE" "BUTTONS_FILE \<noteq> RED_LED_FILE"
  "BUTTONS_FILE \<noteq> GREEN_LED_FILE" "BUTTONS_FILE \<noteq> BLUE_LED_FILE"
  "BUTTONS_FILE \<noteq> LCD_FILE" "BUTTONS_FILE \<noteq> RED_BLINK_FILE"
  "BUTTONS_FILE \<noteq> GREEN_BLINK_FILE" "BUTTONS_FILE \<noteq> BLUE_BLINK_FILE"
  by (simp_all add: RED_LED_FILE_def GREEN_LED_FILE_def BLUE_LED_FILE_def LCD_FILE_def RED_BLINK_FILE_def GREEN_BLINK_FILE_def BLUE_BLINK_FILE_def BUTTONS_FILE_def)

lemma write_int_fst:
  "fst (write_int p v s) =
     (case io s (calls s) p of IoOk \<Rightarrow> 0 | OpenFails e \<Rightarrow> - e | WriteFails e \<Rightarrow> - e)"
  by (simp add: write_int_def Let_def split: io_outcome.split)

lemma write_int_store [simp]:
  "g_attention (snd (write_int p v s)) = g_attention s"
  "g_notification (snd (write_int p v s)) = g_notification s"
  "g_battery (snd (write_int p v s)) = g_battery s"
  "io (snd (write_int p v s)) = io s"
  "calls (snd (write_int p v s)) = Suc (calls s)"
  "trace (snd (write_int p v s)) = trace s @ [WriteInt p v]"
  by (simp_all add: write_int_def Let_def split: io_outcome.split)

lemma write_int_sinks:
  "sinks (snd (write_int p v s)) = (if io s (calls s) p = IoOk then (sinks s)(p := v) else sinks s)"
  by (simp add: write_int_def Let_def split: io_outcome.split)

lemma write_int_other [simp]:
  "q \<noteq> p \<Longrightarrow> sinks (snd (write_int p v s)) q = sinks s q"
  by (simp add: write_int_sinks)

lemma write_int_ok:
  "writes_succeed s \<Longrightarrow> sinks (snd (write_int p v s)) = (sinks s)(p := v)"
  "writes_succeed s \<Longrightarrow> logs (snd (write_int p v s)) = logs s"
  "writes_succeed s \<Longrightarrow> already_warned (snd (write_int p v s)) = already_warned s"
  by (simp_all add: write_int_def Let_def writes_succeed_def)

lemma stationary_at: "stationary s \<Longrightarrow> io s n p = io s 0 p"
  unfolding stationary_def by blast

lemma write_int_stationary:
  "stationary s \<Longrightarrow> sinks (snd (write_int p v s)) = put (io s 0) p v (sinks s)"
  using stationary_at [of s "calls s" p] by (simp add: write_int_sinks put_def)

lemma writes_succeed_io: "io s' = io s \<Longrightarrow> writes_succeed s' = writes_succeed s"
  by (simp add: writes_succeed_def)

lemma stationary_io: "io s' = io s \<Longrightarrow> stationary s' = stationary s"
  by (simp add: stationary_def)

lemma writes_succeed_write_int [simp]:
  "writes_succeed (snd (write_int p v s)) = writes_succeed s"
  by (rule writes_succeed_io) simp

lemma stationary_write_int [simp]:
  "stationary (snd (write_int p v s)) = stationary s"
  by (rule stationary_io) simp

lemma env_update [simp]:
  "writes_succeed (s\<lparr>logs := l\<rparr>) = writes_succeed s"
  "writes_succeed (s\<lparr>trace := t\<rparr>) = writes_succeed s"
  "writes_succeed (s\<lparr>g_attention := a\<rparr>) = writes_succeed s"
  "writes_succeed (s\<lparr>g_notification := a\<rparr>) = writes_succeed s"
  "writes_succeed (s\<lparr>g_battery := a\<rparr>) = writes_succeed s"
  "stationary (s\<lparr>logs := l\<rparr>) = stationary s"
  "stationary (s\<lparr>trace := t\<rparr>) = stationary s"
  "stationary (s\<lparr>g_attention := a\<rparr>) = stationary s"
  "stationary (s\<lparr>g_notification := a\<rparr>) = stationary s"
  "stationary (s\<lparr>g_battery := a\<rparr>) = stationary s"
  by (simp_all add: writes_succeed_def stationary_def)

lemma uint_shift16: "uint (drop_bit 16 (c::32 word)) = uint c div 65536"
  by (simp add: drop_bit_eq_div uint_div)

lemma uint_shift8: "uint (drop_bit 8 (c::32 word)) = uint c div 256"
  by (simp add: drop_bit_eq_div uint_div)

lemmas comps = uint_blue uint_shift16 uint_shift8


lemma battery_frame [simp]:
  "g_attention (snd (set_battery_light_locked dev st s)) = g_attention s"
  "g_notification (snd (set_battery_light_locked dev st s)) = g_notification s"
  "g_battery (snd (set_battery_light_locked dev st s)) = g_battery s"
  "io (snd (set_battery_light_locked dev st s)) = io s"
  by (simp_all add: set_battery_light_locked_def Let_def)

lemma speaker_frame [simp]:
  "g_attention (snd (set_speaker_light_locked dev sto s)) = g_attention s"
  "g_notification (snd (set_speaker_light_locked dev sto s)) = g_notification s"
  "g_battery (snd (set_speaker_light_locked dev sto s)) = g_battery s"
  "io (snd (set_speaker_light_locked dev sto s)) = io s"
  by (simp_all add: set_speaker_light_locked_def Let_def split: option.split)

lemma handle_frame [simp]:
  "g_attention (handle_speaker_light_locked dev s) = g_attention s"
  "g_notification (handle_speaker_light_locked dev s) = g_notification s"
  "g_battery (handle_speaker_light_locked dev s) = g_battery s"
  "io (handle_speaker_light_locked dev s) = io s"
  by (simp_all add: handle_speaker_light_locked_def Let_def)


lemma is_lit_spec: "(is_lit st \<noteq> 0) = spec_isLit st"
  by (simp add: is_lit_def spec_isLit_def uint_low24)

lemma src_comps:
  "uint (drop_bit 16 (color st) AND 0xFF) = spec_red st"
  "uint (drop_bit 8 (color st) AND 0xFF) = spec_green st"
  "uint (color st AND 0xFF) = spec_blue st"
  by (simp_all add: comps spec_red_def spec_green_def spec_blue_def)

lemma battery_trace:
  "trace (snd (set_battery_light_locked dev st s)) =
     trace s @ [WriteInt RED_LED_FILE (spec_red st), WriteInt GREEN_LED_FILE (spec_green st),
                WriteInt BLUE_LED_FILE (spec_blue st)]"
  by (simp add: set_battery_light_locked_def Let_def src_comps)

lemma battery_sinks_ok:
  "writes_succeed s \<Longrightarrow> sinks (snd (set_battery_light_locked dev st s)) =
     (sinks s)(RED_LED_FILE := spec_red st, GREEN_LED_FILE := spec_green st,
               BLUE_LED_FILE := spec_blue st)"
  by (simp add: set_battery_light_locked_def Let_def write_int_ok src_comps)

lemma speaker_ok [simp]:
  "writes_succeed (snd (set_speaker_light_locked dev sto s)) = writes_succeed s"
  by (rule writes_succeed_io) simp

lemma clear_physical_ok:
  "writes_succeed s \<Longrightarrow> physical (snd (set_speaker_light_locked (Some d) None s)) =
     \<lparr>red_solid = 0, green_solid = 0, blue_solid = 0,
      red_blink = 0, green_blink = 0, blue_blink = 0\<rparr>"
  by (simp add: set_speaker_light_locked_def Let_def write_int_ok physical_def)

lemma solid_physical_ok:
  "writes_succeed s \<Longrightarrow> flashOnMS st = 1 \<Longrightarrow>
   physical (snd (set_speaker_light_locked (Some d) (Some st) s)) =
     (physical s)\<lparr>red_solid := spec_red st, green_solid := spec_green st,
                  blue_solid := spec_blue st\<rparr>"
  by (simp add: set_speaker_light_locked_def Let_def write_int_ok src_comps physical_def)

lemma blink_physical_ok:
  "writes_succeed s \<Longrightarrow> flashOnMS st \<noteq> 1 \<Longrightarrow>
   physical (snd (set_speaker_light_locked (Some d) (Some st) s)) =
     \<lparr>red_solid = 0, green_solid = 0, blue_solid = 0,
      red_blink = (if spec_red st \<noteq> 0 then 1 else red_blink (physical s)),
      green_blink = (if spec_green st \<noteq> 0 then 1 else green_blink (physical s)),
      blue_blink = (if spec_blue st \<noteq> 0 then 1 else blue_blink (physical s))\<rparr>"
  by (cases "spec_red st = 0"; cases "spec_green st = 0"; cases "spec_blue st = 0")
     (simp_all add: set_speaker_light_locked_def Let_def write_int_ok src_comps physical_def)

lemma battery_physical_ok:
  "writes_succeed s \<Longrightarrow>
   physical (snd (set_battery_light_locked dev st s)) =
     (physical s)\<lparr>red_solid := spec_red st, green_solid := spec_green st,
                  blue_solid := spec_blue st\<rparr>"
  by (simp add: battery_sinks_ok physical_def)

lemma handle_output_ok:
  assumes "writes_succeed s"
  shows "physical (handle_speaker_light_locked (Some d) s) = spec_output s"
proof -
  let ?c = "snd (set_speaker_light_locked (Some d) None s)"
  have ok: "writes_succeed ?c" using assms by simp
  note cl = clear_physical_ok [OF assms, of d]
  show ?thesis
  proof (cases "spec_isLit (g_attention s)")
    case True
    then have h: "handle_speaker_light_locked (Some d) s =
        snd (set_speaker_light_locked (Some d) (Some (g_attention s)) ?c)"
      by (simp add: handle_speaker_light_locked_def Let_def is_lit_spec)
    have w: "spec_output s = spec_render Attention (g_attention s)"
      using True by (simp add: spec_output_def spec_winner_def spec_slot_state_def)
    show ?thesis
    proof (cases "flashOnMS (g_attention s) = 1")
      case True
      then show ?thesis unfolding h w
        by (simp add: solid_physical_ok [OF ok] cl spec_render_def spec_solid_render_def)
    next
      case False
      then show ?thesis unfolding h w
        by (simp add: blink_physical_ok [OF ok] cl spec_render_def spec_blink_render_def)
    qed
  next
    case False
    note na = this
    show ?thesis
    proof (cases "spec_isLit (g_notification s)")
      case True
      then have h: "handle_speaker_light_locked (Some d) s =
          snd (set_speaker_light_locked (Some d) (Some (g_notification s)) ?c)"
        using na by (simp add: handle_speaker_light_locked_def Let_def is_lit_spec)
      have w: "spec_output s = spec_render Notification (g_notification s)"
        using True na by (simp add: spec_output_def spec_winner_def spec_slot_state_def)
      show ?thesis
      proof (cases "flashOnMS (g_notification s) = 1")
        case True
        then show ?thesis unfolding h w
          by (simp add: solid_physical_ok [OF ok] cl spec_render_def spec_solid_render_def)
      next
        case False
        then show ?thesis unfolding h w
          by (simp add: blink_physical_ok [OF ok] cl spec_render_def spec_blink_render_def)
      qed
    next
      case False
      then have h: "handle_speaker_light_locked (Some d) s =
          snd (set_battery_light_locked (Some d) (g_battery s) ?c)"
        using na by (simp add: handle_speaker_light_locked_def Let_def is_lit_spec)
      have w: "spec_output s = spec_render Battery (g_battery s)"
        using False na by (simp add: spec_output_def spec_winner_def spec_slot_state_def)
      show ?thesis unfolding h w
        by (simp add: battery_physical_ok [OF ok] cl spec_render_def spec_solid_render_def)
    qed
  qed
qed

lemma mutex_frame [simp]:
  "g_attention (pthread_mutex_lock m s) = g_attention s"
  "g_notification (pthread_mutex_lock m s) = g_notification s"
  "g_battery (pthread_mutex_lock m s) = g_battery s"
  "io (pthread_mutex_lock m s) = io s"
  "sinks (pthread_mutex_lock m s) = sinks s"
  "calls (pthread_mutex_lock m s) = calls s"
  "trace (pthread_mutex_lock m s) = trace s @ [MutexLock m]"
  "g_attention (pthread_mutex_unlock m s) = g_attention s"
  "g_notification (pthread_mutex_unlock m s) = g_notification s"
  "g_battery (pthread_mutex_unlock m s) = g_battery s"
  "io (pthread_mutex_unlock m s) = io s"
  "sinks (pthread_mutex_unlock m s) = sinks s"
  "calls (pthread_mutex_unlock m s) = calls s"
  "trace (pthread_mutex_unlock m s) = trace s @ [MutexUnlock m]"
  by (simp_all add: pthread_mutex_lock_def pthread_mutex_unlock_def)

lemma mutex_env [simp]:
  "writes_succeed (pthread_mutex_lock m s) = writes_succeed s"
  "writes_succeed (pthread_mutex_unlock m s) = writes_succeed s"
  "stationary (pthread_mutex_lock m s) = stationary s"
  "stationary (pthread_mutex_unlock m s) = stationary s"
  by (simp_all add: writes_succeed_def stationary_def)

lemma physical_cong: "sinks t = sinks s \<Longrightarrow> physical t = physical s"
  by (simp add: physical_def)

lemma spec_output_cong:
  "g_attention t = g_attention s \<Longrightarrow> g_notification t = g_notification s \<Longrightarrow>
   g_battery t = g_battery s \<Longrightarrow> spec_output t = spec_output s"
  by (simp add: spec_output_def spec_winner_def spec_slot_state_def)

lemma set_light_store:
  "store (snd (set_light_attention dev st s)) = (st, g_notification s, g_battery s)"
  "store (snd (set_light_notifications dev st s)) = (g_attention s, st, g_battery s)"
  "store (snd (set_light_battery dev st s)) = (g_attention s, g_notification s, st)"
  by (simp_all add: store_def set_light_attention_def set_light_notifications_def
        set_light_battery_def Let_def)

lemma set_light_attention_output:
  assumes "writes_succeed s"
  shows "physical (snd (set_light_attention (Some d) st s))
           = spec_output (snd (set_light_attention (Some d) st s))"
proof -
  let ?u = "(pthread_mutex_lock G_lock s)\<lparr>g_attention := st\<rparr>"
  have r: "snd (set_light_attention (Some d) st s)
             = pthread_mutex_unlock G_lock (handle_speaker_light_locked (Some d) ?u)"
    by (simp add: set_light_attention_def Let_def)
  have ok: "writes_succeed ?u" using assms by simp
  have "physical (snd (set_light_attention (Some d) st s))
          = physical (handle_speaker_light_locked (Some d) ?u)"
    unfolding r by (rule physical_cong) simp
  also have "\<dots> = spec_output ?u" by (rule handle_output_ok [OF ok])
  also have "\<dots> = spec_output (snd (set_light_attention (Some d) st s))"
    unfolding r by (rule spec_output_cong) simp_all
  finally show ?thesis .
qed

lemma set_light_notifications_output:
  assumes "writes_succeed s"
  shows "physical (snd (set_light_notifications (Some d) st s))
           = spec_output (snd (set_light_notifications (Some d) st s))"
proof -
  let ?u = "(pthread_mutex_lock G_lock s)\<lparr>g_notification := st\<rparr>"
  have r: "snd (set_light_notifications (Some d) st s)
             = pthread_mutex_unlock G_lock (handle_speaker_light_locked (Some d) ?u)"
    by (simp add: set_light_notifications_def Let_def)
  have ok: "writes_succeed ?u" using assms by simp
  have "physical (snd (set_light_notifications (Some d) st s))
          = physical (handle_speaker_light_locked (Some d) ?u)"
    unfolding r by (rule physical_cong) simp
  also have "\<dots> = spec_output ?u" by (rule handle_output_ok [OF ok])
  also have "\<dots> = spec_output (snd (set_light_notifications (Some d) st s))"
    unfolding r by (rule spec_output_cong) simp_all
  finally show ?thesis .
qed

lemma set_light_battery_output:
  assumes "writes_succeed s"
  shows "physical (snd (set_light_battery (Some d) st s))
           = spec_output (snd (set_light_battery (Some d) st s))"
proof -
  let ?u = "(pthread_mutex_lock G_lock s)\<lparr>g_battery := st\<rparr>"
  have r: "snd (set_light_battery (Some d) st s)
             = pthread_mutex_unlock G_lock (handle_speaker_light_locked (Some d) ?u)"
    by (simp add: set_light_battery_def Let_def)
  have ok: "writes_succeed ?u" using assms by simp
  have "physical (snd (set_light_battery (Some d) st s))
          = physical (handle_speaker_light_locked (Some d) ?u)"
    unfolding r by (rule physical_cong) simp
  also have "\<dots> = spec_output ?u" by (rule handle_output_ok [OF ok])
  also have "\<dots> = spec_output (snd (set_light_battery (Some d) st s))"
    unfolding r by (rule spec_output_cong) simp_all
  finally show ?thesis .
qed

lemma single_channel_frame:
  "physical (snd (set_light_backlight dev st s)) = physical s"
  "store (snd (set_light_backlight dev st s)) = store s"
  "physical (snd (set_light_buttons dev st s)) = physical s"
  "store (snd (set_light_buttons dev st s)) = store s"
  by (simp_all add: set_light_backlight_def set_light_buttons_def Let_def split_def
        physical_def store_def)

lemma boot_ok: "writes_succeed (boot (\<lambda>n p. IoOk))"
  by (simp add: writes_succeed_def boot_def)

lemma backlight_ret:
  "fst (set_light_backlight dev st s) = outcome_code (io s (calls s) LCD_FILE)"
  by (cases "io s (calls s) LCD_FILE")
     (simp_all add: set_light_backlight_def Let_def split_def write_int_fst)

lemma buttons_ret:
  "fst (set_light_buttons dev st s) = outcome_code (io s (calls s) BUTTONS_FILE)"
  by (cases "io s (calls s) BUTTONS_FILE")
     (simp_all add: set_light_buttons_def Let_def split_def write_int_fst)

lemma outcome_code_zero: "errno_valid oc \<Longrightarrow> (outcome_code oc = 0) = (oc = IoOk)"
  by (cases oc) simp_all

lemma outcome_code_neg: "errno_valid oc \<Longrightarrow> oc \<noteq> IoOk \<Longrightarrow> outcome_code oc < 0"
  by (cases oc) simp_all

lemma speaker_trace:
  "trace (snd (set_speaker_light_locked (Some d) (Some st) t)) =
     trace t @
     (if flashOnMS st = 1
      then [WriteInt RED_LED_FILE (spec_red st), WriteInt GREEN_LED_FILE (spec_green st),
            WriteInt BLUE_LED_FILE (spec_blue st)]
      else [WriteInt RED_LED_FILE 0, WriteInt GREEN_LED_FILE 0, WriteInt BLUE_LED_FILE 0]
           @ (if spec_red st \<noteq> 0 then [WriteInt RED_BLINK_FILE 1] else [])
           @ (if spec_green st \<noteq> 0 then [WriteInt GREEN_BLINK_FILE 1] else [])
           @ (if spec_blue st \<noteq> 0 then [WriteInt BLUE_BLINK_FILE 1] else []))"
  by (cases "flashOnMS st = 1"; cases "spec_red st = 0"; cases "spec_green st = 0";
      cases "spec_blue st = 0")
     (simp_all add: set_speaker_light_locked_def Let_def src_comps)

lemma handle_winner:
  "handle_speaker_light_locked dev s =
     (case spec_winner s of
        Battery \<Rightarrow> snd (set_battery_light_locked dev (g_battery s)
                         (snd (set_speaker_light_locked dev None s)))
      | sl \<Rightarrow> snd (set_speaker_light_locked dev (Some (spec_slot_state s sl))
                         (snd (set_speaker_light_locked dev None s))))"
  by (simp add: handle_speaker_light_locked_def Let_def is_lit_spec spec_winner_def
        spec_slot_state_def)

lemma battery_blink_untouched:
  "sinks (snd (set_battery_light_locked dev b t)) RED_BLINK_FILE = sinks t RED_BLINK_FILE"
  "sinks (snd (set_battery_light_locked dev b t)) GREEN_BLINK_FILE = sinks t GREEN_BLINK_FILE"
  "sinks (snd (set_battery_light_locked dev b t)) BLUE_BLINK_FILE = sinks t BLUE_BLINK_FILE"
  by (simp_all add: set_battery_light_locked_def Let_def)

lemma example_comps [simp]:
  "spec_isLit unlit = False" "spec_isLit red_flash" "spec_isLit green_steady" "spec_isLit charging"
  "spec_red green_steady = 0" "spec_green green_steady = 255" "spec_blue green_steady = 0"
  "spec_red charging = 17" "spec_green charging = 34" "spec_blue charging = 51"
  "spec_red red_flash = 255" "spec_green red_flash = 0" "spec_blue red_flash = 0"
  by (simp_all add: spec_isLit_def spec_red_def spec_green_def spec_blue_def unlit_def
        red_flash_def green_steady_def charging_def)

lemma boot_sel [simp]:
  "g_attention (boot f) = unlit" "g_notification (boot f) = unlit" "g_battery (boot f) = unlit"
  "io (boot f) = f" "calls (boot f) = 0" "trace (boot f) = []" "logs (boot f) = []"
  "already_warned (boot f) = 0" "sinks (boot f) = (\<lambda>p. 0)"
  by (simp_all add: boot_def)

lemma speaker_null: "set_speaker_light_locked None sto s = (- 1, s)"
  by (simp add: set_speaker_light_locked_def)

lemma handle_null:
  "handle_speaker_light_locked None s =
     (if spec_winner s = Battery then snd (set_battery_light_locked None (g_battery s) s) else s)"
  by (cases "spec_winner s") (simp_all add: handle_winner speaker_null)

lemma winner_cong:
  "g_attention t = g_attention s \<Longrightarrow> g_notification t = g_notification s
   \<Longrightarrow> spec_winner t = spec_winner s"
  by (simp add: spec_winner_def)

lemma put_apply: "put f p v m q = (if q = p \<and> f p = IoOk then v else m q)"
  by (simp add: put_def)

lemma put_if_apply:
  "put_if c f p v m q = (if c \<and> q = p \<and> f p = IoOk then v else m q)"
  by (simp add: put_if_def put_apply)

lemma battery_sinks_stationary:
  "stationary s \<Longrightarrow>
   sinks (snd (set_battery_light_locked dev st s)) = solid_effect (io s 0) st (sinks s)"
  by (simp add: set_battery_light_locked_def Let_def write_int_stationary src_comps
        solid_effect_def)

lemma speaker_sinks_stationary:
  "stationary s \<Longrightarrow>
   sinks (snd (set_speaker_light_locked dev sto s)) = speaker_effect dev sto (io s 0) (sinks s)"
proof (cases dev)
  case None
  then show ?thesis by (simp add: set_speaker_light_locked_def speaker_effect_def)
next
  case (Some d)
  assume st: "stationary s"
  show ?thesis
  proof (cases sto)
    case None
    then show ?thesis using st Some
      by (simp add: set_speaker_light_locked_def Let_def write_int_stationary
            speaker_effect_def clear_effect_def)
  next
    case (Some w)
    note w = this
    show ?thesis
    proof (cases "flashOnMS w = 1")
      case True
      then show ?thesis using st \<open>dev = Some d\<close> w
        by (simp add: set_speaker_light_locked_def Let_def write_int_stationary src_comps
              speaker_effect_def solid_effect_def)
    next
      case False
      then show ?thesis using st \<open>dev = Some d\<close> w
        by (cases "spec_red w = 0"; cases "spec_green w = 0"; cases "spec_blue w = 0")
           (simp_all add: set_speaker_light_locked_def Let_def write_int_stationary src_comps
              speaker_effect_def blink_effect_def put_if_def)
    qed
  qed
qed

lemma speaker_stationary [simp]:
  "stationary (snd (set_speaker_light_locked dev sto s)) = stationary s"
  by (rule stationary_io) simp

lemma handle_sinks_stationary:
  assumes "stationary s"
  shows "sinks (handle_speaker_light_locked dev s) = handle_effect dev s (io s 0) (sinks s)"
proof -
  let ?c = "snd (set_speaker_light_locked dev None s)"
  have c: "stationary ?c" "io ?c = io s" using assms by simp_all
  have cs: "sinks ?c = speaker_effect dev None (io s 0) (sinks s)"
    by (rule speaker_sinks_stationary [OF assms])
  show ?thesis
    by (cases "spec_winner s")
       (simp_all add: handle_winner handle_effect_def speaker_sinks_stationary [OF c(1)]
          battery_sinks_stationary [OF c(1)] c(2) cs)
qed

lemma handle_effect_cong:
  "g_attention t = g_attention s \<Longrightarrow> g_notification t = g_notification s \<Longrightarrow>
   g_battery t = g_battery s \<Longrightarrow> handle_effect dev t = handle_effect dev s"
  by (simp add: handle_effect_def spec_winner_def spec_slot_state_def fun_eq_iff)

lemma solid_effect_idem: "solid_effect f st (solid_effect f st m) = solid_effect f st m"
  by (rule ext) (simp add: solid_effect_def put_apply cong: conj_cong)

lemma solid_clear_idem:
  "solid_effect f st (clear_effect f (solid_effect f st (clear_effect f m)))
     = solid_effect f st (clear_effect f m)"
  by (rule ext) (simp add: solid_effect_def clear_effect_def put_apply cong: conj_cong)

lemma blink_clear_idem:
  "blink_effect f st (clear_effect f (blink_effect f st (clear_effect f m)))
     = blink_effect f st (clear_effect f m)"
  by (rule ext)
     (simp add: blink_effect_def clear_effect_def put_apply put_if_apply cong: conj_cong)

lemma handle_effect_idem:
  "handle_effect dev s f (handle_effect dev s f m) = handle_effect dev s f m"
  by (cases dev; cases "spec_winner s")
     (simp_all add: handle_effect_def speaker_effect_def solid_effect_idem solid_clear_idem
        blink_clear_idem)

lemma handle_twice:
  assumes "stationary u" "io u' = io u" "g_attention u' = g_attention u"
    "g_notification u' = g_notification u" "g_battery u' = g_battery u"
    "sinks u' = sinks (handle_speaker_light_locked dev u)"
  shows "sinks (handle_speaker_light_locked dev u') = sinks (handle_speaker_light_locked dev u)"
proof -
  have st': "stationary u'" using stationary_io [OF assms(2)] assms(1) by simp
  have "sinks (handle_speaker_light_locked dev u')
          = handle_effect dev u' (io u' 0) (sinks u')"
    by (rule handle_sinks_stationary [OF st'])
  also have "\<dots> = handle_effect dev u (io u 0) (handle_effect dev u (io u 0) (sinks u))"
    by (simp add: handle_effect_cong [OF assms(3,4,5)] assms(2,6)
          handle_sinks_stationary [OF assms(1)])
  also have "\<dots> = sinks (handle_speaker_light_locked dev u)"
    by (simp add: handle_effect_idem handle_sinks_stationary [OF assms(1)])
  finally show ?thesis .
qed

lemma attention_twice:
  assumes "stationary s"
  shows "sinks (snd (set_light_attention dev st (snd (set_light_attention dev st s))))
           = sinks (snd (set_light_attention dev st s))"
proof -
  let ?u = "(pthread_mutex_lock G_lock s)\<lparr>g_attention := st\<rparr>"
  let ?s1 = "pthread_mutex_unlock G_lock (handle_speaker_light_locked dev ?u)"
  let ?u' = "(pthread_mutex_lock G_lock ?s1)\<lparr>g_attention := st\<rparr>"
  have r1: "snd (set_light_attention dev st s) = ?s1"
    by (simp add: set_light_attention_def Let_def)
  have r2: "snd (set_light_attention dev st ?s1)
              = pthread_mutex_unlock G_lock (handle_speaker_light_locked dev ?u')"
    by (simp add: set_light_attention_def Let_def)
  have su: "stationary ?u" using assms by simp
  have "sinks (handle_speaker_light_locked dev ?u') = sinks (handle_speaker_light_locked dev ?u)"
    by (rule handle_twice [OF su]) simp_all
  then show ?thesis unfolding r1 r2 by simp
qed

lemma notifications_twice:
  assumes "stationary s"
  shows "sinks (snd (set_light_notifications dev st (snd (set_light_notifications dev st s))))
           = sinks (snd (set_light_notifications dev st s))"
proof -
  let ?u = "(pthread_mutex_lock G_lock s)\<lparr>g_notification := st\<rparr>"
  let ?s1 = "pthread_mutex_unlock G_lock (handle_speaker_light_locked dev ?u)"
  let ?u' = "(pthread_mutex_lock G_lock ?s1)\<lparr>g_notification := st\<rparr>"
  have r1: "snd (set_light_notifications dev st s) = ?s1"
    by (simp add: set_light_notifications_def Let_def)
  have r2: "snd (set_light_notifications dev st ?s1)
              = pthread_mutex_unlock G_lock (handle_speaker_light_locked dev ?u')"
    by (simp add: set_light_notifications_def Let_def)
  have su: "stationary ?u" using assms by simp
  have "sinks (handle_speaker_light_locked dev ?u') = sinks (handle_speaker_light_locked dev ?u)"
    by (rule handle_twice [OF su]) simp_all
  then show ?thesis unfolding r1 r2 by simp
qed

lemma battery_twice:
  assumes "stationary s"
  shows "sinks (snd (set_light_battery dev st (snd (set_light_battery dev st s))))
           = sinks (snd (set_light_battery dev st s))"
proof -
  let ?u = "(pthread_mutex_lock G_lock s)\<lparr>g_battery := st\<rparr>"
  let ?s1 = "pthread_mutex_unlock G_lock (handle_speaker_light_locked dev ?u)"
  let ?u' = "(pthread_mutex_lock G_lock ?s1)\<lparr>g_battery := st\<rparr>"
  have r1: "snd (set_light_battery dev st s) = ?s1"
    by (simp add: set_light_battery_def Let_def)
  have r2: "snd (set_light_battery dev st ?s1)
              = pthread_mutex_unlock G_lock (handle_speaker_light_locked dev ?u')"
    by (simp add: set_light_battery_def Let_def)
  have su: "stationary ?u" using assms by simp
  have "sinks (handle_speaker_light_locked dev ?u') = sinks (handle_speaker_light_locked dev ?u)"
    by (rule handle_twice [OF su]) simp_all
  then show ?thesis unfolding r1 r2 by simp
qed

lemma aloge_paths_append: "aloge_paths (xs @ ys) = aloge_paths xs @ aloge_paths ys"
  by (induction xs rule: aloge_paths.induct) simp_all

lemma write_int_error_log:
  "error_log (snd (write_int p v s)) =
     error_log s @
     (case io s (calls s) p of
        OpenFails e \<Rightarrow> if already_warned s = 0 then [p] else []
      | _ \<Rightarrow> [])"
  by (simp add: write_int_def Let_def error_log_def aloge_paths_append split: io_outcome.split)

lemma boot_error_log [simp]: "error_log (boot f) = []"
  by (simp add: error_log_def)

lemma write_int_warned:
  "already_warned (snd (write_int p v s)) =
     (case io s (calls s) p of
        OpenFails e \<Rightarrow> if already_warned s = 0 then 1 else already_warned s
      | _ \<Rightarrow> already_warned s)"
  by (simp add: write_int_def Let_def split: io_outcome.split)

lemma write_ints_silent:
  "already_warned s \<noteq> 0 \<Longrightarrow> error_log (write_ints ws s) = error_log s"
proof (induction ws arbitrary: s)
  case Nil
  then show ?case by simp
next
  case (Cons w ws)
  obtain p v where w: "w = (p, v)" by (cases w)
  have "already_warned (snd (write_int p v s)) \<noteq> 0"
    using Cons.prems by (simp add: write_int_warned split: io_outcome.split)
  then have "error_log (write_ints ws (snd (write_int p v s))) = error_log (snd (write_int p v s))"
    by (rule Cons.IH)
  also have "\<dots> = error_log s"
    using Cons.prems by (simp add: write_int_error_log split: io_outcome.split)
  finally show ?case by (simp add: w)
qed

lemma write_ints_first:
  "already_warned s = 0 \<Longrightarrow>
   error_log (write_ints ws s) =
     error_log s @ (case first_open_failure (io s) (calls s) ws of None \<Rightarrow> [] | Some p \<Rightarrow> [p])"
proof (induction ws arbitrary: s)
  case Nil
  then show ?case by simp
next
  case (Cons w ws)
  obtain p v where w: "w = (p, v)" by (cases w)
  let ?s' = "snd (write_int p v s)"
  show ?case
  proof (cases "io s (calls s) p")
    case IoOk
    then have "already_warned ?s' = 0" using Cons.prems by (simp add: write_int_warned)
    from Cons.IH [OF this] IoOk show ?thesis
      by (simp add: w write_int_error_log)
  next
    case (WriteFails e)
    then have "already_warned ?s' = 0" using Cons.prems by (simp add: write_int_warned)
    from Cons.IH [OF this] WriteFails show ?thesis
      by (simp add: w write_int_error_log)
  next
    case (OpenFails e)
    then have "already_warned ?s' \<noteq> 0" using Cons.prems by (simp add: write_int_warned)
    from write_ints_silent [OF this, of ws] OpenFails Cons.prems show ?thesis
      by (simp add: w write_int_error_log)
  qed
qed

lemma clear_trace:
  "trace (snd (set_speaker_light_locked (Some d) None s)) =
     trace s @ [WriteInt RED_LED_FILE 0, WriteInt GREEN_LED_FILE 0, WriteInt BLUE_LED_FILE 0,
                WriteInt RED_BLINK_FILE 0, WriteInt GREEN_BLINK_FILE 0,
                WriteInt BLUE_BLINK_FILE 0]"
  by (simp add: set_speaker_light_locked_def Let_def)

lemma speaker_writes_only:
  "\<exists>es. trace (snd (set_speaker_light_locked dev sto s)) = trace s @ es \<and> list_all is_write es"
proof (cases dev)
  case None
  then show ?thesis by (simp add: speaker_null)
next
  case (Some d)
  show ?thesis
  proof (cases sto)
    case None
    then show ?thesis unfolding Some by (simp add: clear_trace)
  next
    case (Some st)
    then show ?thesis unfolding \<open>dev = Some d\<close> by (simp add: speaker_trace)
  qed
qed

lemma battery_writes_only:
  "\<exists>es. trace (snd (set_battery_light_locked dev st s)) = trace s @ es \<and> list_all is_write es"
  by (simp add: battery_trace)

lemma handle_writes_only:
  "\<exists>es. trace (handle_speaker_light_locked dev s) = trace s @ es \<and> list_all is_write es"
proof -
  let ?c = "snd (set_speaker_light_locked dev None s)"
  obtain es where es: "trace ?c = trace s @ es" "list_all is_write es"
    using speaker_writes_only [of dev None s] by blast
  have "\<exists>fs. trace (handle_speaker_light_locked dev s) = trace ?c @ fs \<and> list_all is_write fs"
    by (cases "spec_winner s")
       (simp_all only: handle_winner slot.case speaker_writes_only battery_writes_only)
  then obtain fs where fs: "trace (handle_speaker_light_locked dev s) = trace ?c @ fs"
    "list_all is_write fs" by blast
  from es fs have "trace (handle_speaker_light_locked dev s) = trace s @ (es @ fs)
      \<and> list_all is_write (es @ fs)" by simp
  then show ?thesis by blast
qed

lemma color_channel_locked:
  assumes "\<And>u. trace (upd u) = trace u"
  shows "\<exists>es. trace (pthread_mutex_unlock G_lock
                 (handle_speaker_light_locked dev (upd (pthread_mutex_lock G_lock s))))
           = trace s @ [MutexLock G_lock] @ es @ [MutexUnlock G_lock] \<and> list_all is_write es"
proof -
  let ?u = "upd (pthread_mutex_lock G_lock s)"
  obtain es where es: "trace (handle_speaker_light_locked dev ?u) = trace ?u @ es"
    "list_all is_write es"
    using handle_writes_only [of dev ?u] by blast
  have "trace (pthread_mutex_unlock G_lock (handle_speaker_light_locked dev ?u))
          = trace s @ [MutexLock G_lock] @ es @ [MutexUnlock G_lock]"
    by (simp add: es(1) assms)
  with es(2) show ?thesis by blast
qed

lemma all_ok_succeed [simp]: "writes_succeed (boot all_ok)"
  by (simp add: writes_succeed_def all_ok_def)

lemma unlit_comps [simp]: "spec_red unlit = 0" "spec_green unlit = 0" "spec_blue unlit = 0"
  by (simp_all add: spec_red_def spec_green_def spec_blue_def unlit_def)

lemma set_light_attention_io [simp]: "io (snd (set_light_attention dev st s)) = io s"
  by (simp add: set_light_attention_def Let_def)

lemma attention_null_sinks:
  "spec_isLit st \<Longrightarrow> sinks (snd (set_light_attention None st s)) = sinks s"
  by (simp add: set_light_attention_def Let_def handle_null spec_winner_def)

lemma attention_null_fallback:
  assumes "\<not> spec_isLit st" "\<not> spec_isLit (g_notification s)" "writes_succeed s"
  shows "physical (snd (set_light_attention None st s)) =
           (physical s)\<lparr>red_solid := spec_red (g_battery s),
                         green_solid := spec_green (g_battery s),
                         blue_solid := spec_blue (g_battery s)\<rparr>"
proof -
  let ?u = "(pthread_mutex_lock G_lock s)\<lparr>g_attention := st\<rparr>"
  have w: "spec_winner ?u = Battery" using assms(1,2) by (simp add: spec_winner_def)
  have ok: "writes_succeed ?u" using assms(3) by simp
  have "physical (snd (set_light_attention None st s))
          = physical (snd (set_battery_light_locked None (g_battery ?u) ?u))"
    by (rule physical_cong) (simp add: set_light_attention_def Let_def handle_null w)
  also have "\<dots> = (physical ?u)\<lparr>red_solid := spec_red (g_battery ?u),
                         green_solid := spec_green (g_battery ?u),
                         blue_solid := spec_blue (g_battery ?u)\<rparr>"
    by (rule battery_physical_ok [OF ok])
  also have "physical ?u = physical s" by (rule physical_cong) simp
  finally show ?thesis by simp
qed

section \<open>The claims\<close>

text \<open>
  C4. The brightness converter returns \<open>(77 * R + 150 * G + 29 * B) >> 8\<close>, where \<open>R\<close>,
  \<open>G\<close>, \<open>B\<close> are bits 16-23, 8-15 and 0-7 of the colour; the result lies in \<open>[0, 255]\<close>;
  two light states whose colours agree on the low 24 bits have the same brightness,
  whatever their other bits and fields.
\<close>

theorem rgb_to_brightness_spec:
  "rgb_to_brightness st =
     (77 * (uint (color st) div 65536 mod 256)
      + 150 * (uint (color st) div 256 mod 256)
      + 29 * (uint (color st) mod 256)) div 256
   \<and> 0 \<le> rgb_to_brightness st \<and> rgb_to_brightness st \<le> 255
   \<and> (\<forall>st'. color st' AND 0x00ffffff = color st AND 0x00ffffff
          \<longrightarrow> rgb_to_brightness st' = rgb_to_brightness st)"
proof -
  have "\<forall>st'. color st' AND 0x00ffffff = color st AND 0x00ffffff
          \<longrightarrow> rgb_to_brightness st' = rgb_to_brightness st"
    by (simp add: rgb_to_brightness_def)
  with rgb_to_brightness_formula [of st] rgb_to_brightness_range [of st]
  show ?thesis by blast
qed

theorem rgb_to_brightness_spec_witness:
  "color \<lparr>color = 0xFF112233, flashMode = 1, flashOnMS = 500, flashOffMS = 200,
          brightnessMode = 1\<rparr> AND 0x00ffffff
     = color \<lparr>color = 0x00112233, flashMode = 0, flashOnMS = 1, flashOffMS = 0,
          brightnessMode = 0\<rparr> AND 0x00ffffff
   \<and> rgb_to_brightness \<lparr>color = 0xFF112233, flashMode = 1, flashOnMS = 500,
          flashOffMS = 200, brightnessMode = 1\<rparr>
     = rgb_to_brightness \<lparr>color = 0x00112233, flashMode = 0, flashOnMS = 1,
          flashOffMS = 0, brightnessMode = 0\<rparr>
   \<and> rgb_to_brightness \<lparr>color = 0x00112233, flashMode = 0, flashOnMS = 1,
          flashOffMS = 0, brightnessMode = 0\<rparr> = 30"
proof -
  let ?a = "\<lparr>color = 0x00112233, flashMode = 0, flashOnMS = 1, flashOffMS = 0,
          brightnessMode = 0\<rparr> :: light_state_t"
  let ?b = "\<lparr>color = 0xFF112233, flashMode = 1, flashOnMS = 500, flashOffMS = 200,
          brightnessMode = 1\<rparr> :: light_state_t"
  have eq: "color ?b AND 0x00ffffff = color ?a AND 0x00ffffff" by simp
  have val: "rgb_to_brightness ?a = 30"
    using rgb_to_brightness_spec [of ?a] by simp
  have "rgb_to_brightness ?b = rgb_to_brightness ?a"
    using rgb_to_brightness_spec [of ?a] eq by blast
  with eq val show ?thesis by blast
qed

text \<open>
  C1. The claim does not hold for every call: with a NULL device the clear step and the
  render of Attention or Notification are skipped, so the output is not the render of a
  lit winner. As amended: after a call of \<^verbatim>\<open>set_light_attention\<close>,
  \<^verbatim>\<open>set_light_notifications\<close> or \<^verbatim>\<open>set_light_battery\<close> on a device that is not NULL,
  when the writes to the sinks succeed, the physical output is the render of the winner
  chosen by fixed priority over the store as the call leaves it (Attention if lit, else
  Notification if lit, else Battery); the call replaces its own slot and leaves the other
  two. The backlight and buttons calls change neither the six colour sinks nor the store.
\<close>

theorem color_output_is_arbitration:
  "(dev \<noteq> None \<and> writes_succeed s \<longrightarrow>
      physical (snd (set_light_attention dev st s))
        = spec_output (snd (set_light_attention dev st s))
    \<and> physical (snd (set_light_notifications dev st s))
        = spec_output (snd (set_light_notifications dev st s))
    \<and> physical (snd (set_light_battery dev st s))
        = spec_output (snd (set_light_battery dev st s)))
   \<and> store (snd (set_light_attention dev st s)) = (st, g_notification s, g_battery s)
   \<and> store (snd (set_light_notifications dev st s)) = (g_attention s, st, g_battery s)
   \<and> store (snd (set_light_battery dev st s)) = (g_attention s, g_notification s, st)
   \<and> physical (snd (set_light_backlight dev st s)) = physical s
   \<and> store (snd (set_light_backlight dev st s)) = store s
   \<and> physical (snd (set_light_buttons dev st s)) = physical s
   \<and> store (snd (set_light_buttons dev st s)) = store s"
proof -
  have "dev \<noteq> None \<and> writes_succeed s \<longrightarrow>
      physical (snd (set_light_attention dev st s))
        = spec_output (snd (set_light_attention dev st s))
    \<and> physical (snd (set_light_notifications dev st s))
        = spec_output (snd (set_light_notifications dev st s))
    \<and> physical (snd (set_light_battery dev st s))
        = spec_output (snd (set_light_battery dev st s))"
  proof (cases dev)
    case None
    then show ?thesis by simp
  next
    case (Some d)
    then show ?thesis
      using set_light_attention_output [of s d st] set_light_notifications_output [of s d st]
        set_light_battery_output [of s d st]
      by blast
  qed
  with set_light_store [of dev st s] single_channel_frame [of dev st s]
  show ?thesis by blast
qed

theorem color_output_is_arbitration_witness:
  "Some 0 \<noteq> (None :: light_device_ptr) \<and> writes_succeed (boot (\<lambda>n p. IoOk))
   \<and> physical (snd (set_light_attention (Some 0)
         \<lparr>color = 0xFF0000, flashMode = 1, flashOnMS = 500, flashOffMS = 500,
          brightnessMode = 0\<rparr> (boot (\<lambda>n p. IoOk))))
      = \<lparr>red_solid = 0, green_solid = 0, blue_solid = 0,
         red_blink = 1, green_blink = 0, blue_blink = 0\<rparr>"
proof -
  let ?a = "\<lparr>color = 0xFF0000, flashMode = 1, flashOnMS = 500, flashOffMS = 500,
          brightnessMode = 0\<rparr> :: light_state_t"
  let ?s = "boot (\<lambda>n p. IoOk)"
  have ok: "writes_succeed ?s" by (simp add: writes_succeed_def boot_def)
  from color_output_is_arbitration [of "Some 0" ?s ?a] ok
  have p: "physical (snd (set_light_attention (Some 0) ?a ?s))
             = spec_output (snd (set_light_attention (Some 0) ?a ?s))"
    and st: "store (snd (set_light_attention (Some 0) ?a ?s))
             = (?a, g_notification ?s, g_battery ?s)"
    by simp_all
  from st have "spec_output (snd (set_light_attention (Some 0) ?a ?s))
      = \<lparr>red_solid = 0, green_solid = 0, blue_solid = 0,
         red_blink = 1, green_blink = 0, blue_blink = 0\<rparr>"
    by (simp add: store_def spec_output_def spec_winner_def spec_slot_state_def spec_isLit_def
          spec_render_def spec_blink_render_def spec_red_def spec_green_def spec_blue_def)
  with p ok show ?thesis by simp
qed

text \<open>
  With a NULL device and every write succeeding, a call that stores a lit Attention state
  leaves the six sinks as they were (all 0 at start), while the render of the winner has
  the red blink sink at 1.
\<close>

theorem null_device_output_counterexample:
  "writes_succeed (boot all_ok)
   \<and> physical (snd (set_light_attention None red_flash (boot all_ok)))
       = \<lparr>red_solid = 0, green_solid = 0, blue_solid = 0,
          red_blink = 0, green_blink = 0, blue_blink = 0\<rparr>
   \<and> spec_output (snd (set_light_attention None red_flash (boot all_ok)))
       = \<lparr>red_solid = 0, green_solid = 0, blue_solid = 0,
          red_blink = 1, green_blink = 0, blue_blink = 0\<rparr>
   \<and> physical (snd (set_light_attention None red_flash (boot all_ok)))
       \<noteq> spec_output (snd (set_light_attention None red_flash (boot all_ok)))"
proof -
  have p: "physical (snd (set_light_attention None red_flash (boot all_ok)))
       = \<lparr>red_solid = 0, green_solid = 0, blue_solid = 0,
          red_blink = 0, green_blink = 0, blue_blink = 0\<rparr>"
    by (simp add: physical_def attention_null_sinks)
  have f: "flashOnMS red_flash \<noteq> 1" by (simp add: red_flash_def)
  have "store (snd (set_light_attention None red_flash (boot all_ok)))
          = (red_flash, unlit, unlit)"
    by (simp add: set_light_store)
  then have o: "spec_output (snd (set_light_attention None red_flash (boot all_ok)))
       = \<lparr>red_solid = 0, green_solid = 0, blue_solid = 0,
          red_blink = 1, green_blink = 0, blue_blink = 0\<rparr>"
    by (simp add: store_def spec_output_def spec_winner_def spec_slot_state_def
          spec_render_def spec_blink_render_def f)
  show ?thesis unfolding p o by simp
qed

text \<open>
  C2. When Attention or Notification wins, the arbitration runs the clear step and then
  \<^verbatim>\<open>set_speaker_light_locked\<close> on the winner. With \<open>flashOnMS = 1\<close> the output is the solid
  render: the three components in the solid sinks, the blink sinks at 0. With any other
  \<open>flashOnMS\<close> it is the blink render: solid sinks at 0, blink sink at 1 for each nonzero
  component and at 0 for each zero component. The writes are exactly: in solid mode the
  three components to the solid sinks; in blink mode 0 to the three solid sinks and 1 to
  the blink sink of each nonzero component, nothing else.
\<close>

theorem blink_threshold:
  "(dev \<noteq> None \<and> spec_winner s \<noteq> Battery \<longrightarrow>
      handle_speaker_light_locked dev s
        = snd (set_speaker_light_locked dev (Some (spec_slot_state s (spec_winner s)))
                 (snd (set_speaker_light_locked dev None s)))
      \<and> (writes_succeed s \<longrightarrow>
           physical (handle_speaker_light_locked dev s)
             = (if flashOnMS (spec_slot_state s (spec_winner s)) = 1
                then spec_solid_render (spec_slot_state s (spec_winner s))
                else spec_blink_render (spec_slot_state s (spec_winner s)))))
   \<and> (dev \<noteq> None \<longrightarrow>
        trace (snd (set_speaker_light_locked dev (Some st) t)) =
          trace t @
          (if flashOnMS st = 1
           then [WriteInt RED_LED_FILE (spec_red st), WriteInt GREEN_LED_FILE (spec_green st),
                 WriteInt BLUE_LED_FILE (spec_blue st)]
           else [WriteInt RED_LED_FILE 0, WriteInt GREEN_LED_FILE 0, WriteInt BLUE_LED_FILE 0]
                @ (if spec_red st \<noteq> 0 then [WriteInt RED_BLINK_FILE 1] else [])
                @ (if spec_green st \<noteq> 0 then [WriteInt GREEN_BLINK_FILE 1] else [])
                @ (if spec_blue st \<noteq> 0 then [WriteInt BLUE_BLINK_FILE 1] else [])))"
proof (cases dev)
  case None
  then show ?thesis by simp
next
  case (Some d)
  have a: "spec_winner s \<noteq> Battery \<Longrightarrow> handle_speaker_light_locked dev s
        = snd (set_speaker_light_locked dev (Some (spec_slot_state s (spec_winner s)))
                 (snd (set_speaker_light_locked dev None s)))"
    by (cases "spec_winner s") (simp_all add: handle_winner)
  have b: "spec_winner s \<noteq> Battery \<Longrightarrow> writes_succeed s \<Longrightarrow>
        physical (handle_speaker_light_locked dev s)
             = (if flashOnMS (spec_slot_state s (spec_winner s)) = 1
                then spec_solid_render (spec_slot_state s (spec_winner s))
                else spec_blink_render (spec_slot_state s (spec_winner s)))"
    unfolding Some
    by (cases "spec_winner s") (simp_all add: handle_output_ok spec_output_def spec_render_def)
  from a b speaker_trace [of d st t] Some show ?thesis by blast
qed

theorem blink_threshold_witness:
  "Some 0 \<noteq> (None :: light_device_ptr)
   \<and> spec_winner ((boot (\<lambda>n p. IoOk))\<lparr>g_notification := green_steady, g_battery := charging\<rparr>)
        \<noteq> Battery
   \<and> writes_succeed ((boot (\<lambda>n p. IoOk))\<lparr>g_notification := green_steady, g_battery := charging\<rparr>)
   \<and> physical (handle_speaker_light_locked (Some 0)
         ((boot (\<lambda>n p. IoOk))\<lparr>g_notification := green_steady, g_battery := charging\<rparr>))
      = \<lparr>red_solid = 0, green_solid = 255, blue_solid = 0,
         red_blink = 0, green_blink = 0, blue_blink = 0\<rparr>
   \<and> trace (snd (set_speaker_light_locked (Some 0) (Some red_flash) (boot (\<lambda>n p. IoOk))))
      = [WriteInt RED_LED_FILE 0, WriteInt GREEN_LED_FILE 0, WriteInt BLUE_LED_FILE 0,
         WriteInt RED_BLINK_FILE 1]"
proof -
  let ?s = "(boot (\<lambda>n p. IoOk))\<lparr>g_notification := green_steady, g_battery := charging\<rparr>"
  have ok: "writes_succeed ?s" by (simp add: writes_succeed_def)
  have w: "spec_winner ?s = Notification" by (simp add: spec_winner_def)
  have f: "flashOnMS green_steady = 1" "flashOnMS red_flash \<noteq> 1"
    by (simp_all add: green_steady_def red_flash_def)
  have h: "Some 0 \<noteq> (None :: light_device_ptr) \<and> spec_winner ?s \<noteq> Battery"
    using w by simp
  note T = blink_threshold [of "Some 0" ?s red_flash "boot (\<lambda>n p. IoOk)"]
  note p = T [THEN conjunct1, THEN mp, OF h, THEN conjunct2, THEN mp, OF ok]
  have d: "Some 0 \<noteq> (None :: light_device_ptr)" by simp
  note t = T [THEN conjunct2, THEN mp, OF d]
  have p': "physical (handle_speaker_light_locked (Some 0) ?s)
      = \<lparr>red_solid = 0, green_solid = 255, blue_solid = 0,
         red_blink = 0, green_blink = 0, blue_blink = 0\<rparr>"
    unfolding p by (simp add: w f spec_slot_state_def spec_solid_render_def)
  have t': "trace (snd (set_speaker_light_locked (Some 0) (Some red_flash) (boot (\<lambda>n p. IoOk))))
      = [WriteInt RED_LED_FILE 0, WriteInt GREEN_LED_FILE 0, WriteInt BLUE_LED_FILE 0,
         WriteInt RED_BLINK_FILE 1]"
    unfolding t by (simp add: f)
  from h ok p' t' show ?thesis by blast
qed

text \<open>
  C3. The claim does not hold for every call: with a NULL device the clear step is
  skipped, so a blink sink that is on stays on. As amended: when neither Attention nor
  Notification is lit, the arbitration runs the clear step and then
  \<^verbatim>\<open>set_battery_light_locked\<close> on the Battery state, whatever its colour; on a device that
  is not NULL the physical output is the solid render of the Battery state; on a NULL
  device the three solid sinks hold the Battery components and the other sinks are left as
  they were. The Battery render writes the three components to the solid sinks and nothing
  else: it leaves the three blink sinks as they are, whatever \<open>flashOnMS\<close> is.
\<close>

theorem battery_fallback_solid:
  "(\<not> spec_isLit (g_attention s) \<and> \<not> spec_isLit (g_notification s) \<longrightarrow>
      handle_speaker_light_locked dev s
        = snd (set_battery_light_locked dev (g_battery s)
                 (snd (set_speaker_light_locked dev None s)))
      \<and> (dev \<noteq> None \<and> writes_succeed s \<longrightarrow>
           physical (handle_speaker_light_locked dev s) = spec_solid_render (g_battery s)
           \<and> physical (snd (set_light_battery dev b s)) = spec_solid_render b))
   \<and> trace (snd (set_battery_light_locked dev b t)) =
       trace t @ [WriteInt RED_LED_FILE (spec_red b), WriteInt GREEN_LED_FILE (spec_green b),
                  WriteInt BLUE_LED_FILE (spec_blue b)]
   \<and> sinks (snd (set_battery_light_locked dev b t)) RED_BLINK_FILE = sinks t RED_BLINK_FILE
   \<and> sinks (snd (set_battery_light_locked dev b t)) GREEN_BLINK_FILE = sinks t GREEN_BLINK_FILE
   \<and> sinks (snd (set_battery_light_locked dev b t)) BLUE_BLINK_FILE = sinks t BLUE_BLINK_FILE
   \<and> (writes_succeed t \<longrightarrow>
        sinks (snd (set_battery_light_locked dev b t)) =
          (sinks t)(RED_LED_FILE := spec_red b, GREEN_LED_FILE := spec_green b,
                    BLUE_LED_FILE := spec_blue b))
   \<and> (\<not> spec_isLit (g_attention s) \<and> \<not> spec_isLit (g_notification s)
        \<and> writes_succeed s \<longrightarrow>
        sinks (handle_speaker_light_locked None s) =
          (sinks s)(RED_LED_FILE := spec_red (g_battery s),
                    GREEN_LED_FILE := spec_green (g_battery s),
                    BLUE_LED_FILE := spec_blue (g_battery s)))"
proof -
  have w: "\<not> spec_isLit (g_attention s) \<Longrightarrow> \<not> spec_isLit (g_notification s) \<Longrightarrow>
      spec_winner s = Battery"
    by (simp add: spec_winner_def)
  have n: "\<not> spec_isLit (g_attention s) \<Longrightarrow> \<not> spec_isLit (g_notification s) \<Longrightarrow>
      writes_succeed s \<Longrightarrow>
      sinks (handle_speaker_light_locked None s) =
          (sinks s)(RED_LED_FILE := spec_red (g_battery s),
                    GREEN_LED_FILE := spec_green (g_battery s),
                    BLUE_LED_FILE := spec_blue (g_battery s))"
    by (simp add: handle_null w battery_sinks_ok)
  have a: "\<not> spec_isLit (g_attention s) \<Longrightarrow> \<not> spec_isLit (g_notification s) \<Longrightarrow>
      handle_speaker_light_locked dev s
        = snd (set_battery_light_locked dev (g_battery s)
                 (snd (set_speaker_light_locked dev None s)))"
    by (simp add: handle_winner w)
  have b: "physical (handle_speaker_light_locked dev s) = spec_solid_render (g_battery s)"
    if "\<not> spec_isLit (g_attention s)" "\<not> spec_isLit (g_notification s)" "dev \<noteq> None"
       "writes_succeed s"
  proof -
    from that(3) obtain d where d: "dev = Some d" by blast
    show ?thesis unfolding d
      using that
      by (simp add: handle_output_ok spec_output_def w spec_render_def spec_slot_state_def)
  qed
  have c: "physical (snd (set_light_battery dev b s)) = spec_solid_render b"
    if "\<not> spec_isLit (g_attention s)" "\<not> spec_isLit (g_notification s)" "dev \<noteq> None"
       "writes_succeed s"
  proof -
    from that(3) obtain d where d: "dev = Some d" by blast
    let ?r = "snd (set_light_battery (Some d) b s)"
    have st: "g_attention ?r = g_attention s" "g_notification ?r = g_notification s"
      "g_battery ?r = b"
      using set_light_store(3) [of "Some d" b s] by (simp_all add: store_def)
    have "spec_output ?r = spec_solid_render b"
      using that(1,2)
      by (simp add: spec_output_def spec_winner_def st spec_render_def spec_slot_state_def)
    then show ?thesis unfolding d using set_light_battery_output [OF that(4), of d b]
      by simp
  qed
  from a b c n battery_trace [of dev b t] battery_blink_untouched [of dev b t]
    battery_sinks_ok [of t dev b]
  show ?thesis by blast
qed

theorem battery_fallback_solid_witness:
  "\<not> spec_isLit (g_attention ((boot (\<lambda>n p. IoOk))\<lparr>g_battery := charging\<rparr>))
   \<and> \<not> spec_isLit (g_notification ((boot (\<lambda>n p. IoOk))\<lparr>g_battery := charging\<rparr>))
   \<and> Some 0 \<noteq> (None :: light_device_ptr)
   \<and> writes_succeed ((boot (\<lambda>n p. IoOk))\<lparr>g_battery := charging\<rparr>)
   \<and> writes_succeed (boot (\<lambda>n p. IoOk))
   \<and> physical (handle_speaker_light_locked (Some 0) ((boot (\<lambda>n p. IoOk))\<lparr>g_battery := charging\<rparr>))
      = \<lparr>red_solid = 17, green_solid = 34, blue_solid = 51,
         red_blink = 0, green_blink = 0, blue_blink = 0\<rparr>
   \<and> sinks (snd (set_battery_light_locked (Some 0) charging (boot (\<lambda>n p. IoOk))))
      = (\<lambda>p. 0)(RED_LED_FILE := 17, GREEN_LED_FILE := 34, BLUE_LED_FILE := 51)"
proof -
  let ?s = "(boot (\<lambda>n p. IoOk))\<lparr>g_battery := charging\<rparr>"
  have ok: "writes_succeed ?s" "writes_succeed (boot (\<lambda>n p. IoOk))"
    by (simp_all add: writes_succeed_def)
  have h: "\<not> spec_isLit (g_attention ?s) \<and> \<not> spec_isLit (g_notification ?s)" by simp
  have d: "Some 0 \<noteq> (None :: light_device_ptr) \<and> writes_succeed ?s" using ok by simp
  note T = battery_fallback_solid [of ?s "Some 0" charging "boot (\<lambda>n p. IoOk)"]
  note p = T [THEN conjunct1, THEN mp, OF h, THEN conjunct2, THEN mp, OF d, THEN conjunct1]
  have p': "physical (handle_speaker_light_locked (Some 0) ?s)
      = \<lparr>red_solid = 17, green_solid = 34, blue_solid = 51,
         red_blink = 0, green_blink = 0, blue_blink = 0\<rparr>"
    unfolding p by (simp add: spec_solid_render_def)
  from T ok(2) have "sinks (snd (set_battery_light_locked (Some 0) charging (boot (\<lambda>n p. IoOk))))
      = (sinks (boot (\<lambda>n p. IoOk)))(RED_LED_FILE := spec_red charging,
           GREEN_LED_FILE := spec_green charging, BLUE_LED_FILE := spec_blue charging)"
    by blast
  then have s': "sinks (snd (set_battery_light_locked (Some 0) charging (boot (\<lambda>n p. IoOk))))
      = (\<lambda>p. 0)(RED_LED_FILE := 17, GREEN_LED_FILE := 34, BLUE_LED_FILE := 51)"
    by simp
  from h d ok p' s' show ?thesis by blast
qed

text \<open>
  A call on a valid device turns the red blink sink on; a later call on a NULL device
  stores an unlit Attention state, so that neither Attention nor Notification is lit and
  the Battery path runs, with every write succeeding. The red blink sink is still on: the
  output is not the solid render of the Battery state.
\<close>

theorem null_device_stale_blink_counterexample:
  "writes_succeed (boot all_ok)
   \<and> \<not> spec_isLit (g_attention (snd (set_light_attention None unlit
          (snd (set_light_attention (Some 0) red_flash (boot all_ok))))))
   \<and> \<not> spec_isLit (g_notification (snd (set_light_attention None unlit
          (snd (set_light_attention (Some 0) red_flash (boot all_ok))))))
   \<and> physical (snd (set_light_attention None unlit
          (snd (set_light_attention (Some 0) red_flash (boot all_ok)))))
       = \<lparr>red_solid = 0, green_solid = 0, blue_solid = 0,
          red_blink = 1, green_blink = 0, blue_blink = 0\<rparr>
   \<and> physical (snd (set_light_attention None unlit
          (snd (set_light_attention (Some 0) red_flash (boot all_ok)))))
       \<noteq> spec_solid_render (g_battery (snd (set_light_attention None unlit
            (snd (set_light_attention (Some 0) red_flash (boot all_ok))))))"
proof -
  let ?s1 = "snd (set_light_attention (Some 0) red_flash (boot all_ok))"
  let ?s2 = "snd (set_light_attention None unlit ?s1)"
  have f: "flashOnMS red_flash \<noteq> 1" by (simp add: red_flash_def)
  have st1: "store ?s1 = (red_flash, unlit, unlit)" by (simp add: set_light_store)
  then have g1: "g_notification ?s1 = unlit" "g_battery ?s1 = unlit"
    by (simp_all add: store_def)
  have "spec_output ?s1
       = \<lparr>red_solid = 0, green_solid = 0, blue_solid = 0,
          red_blink = 1, green_blink = 0, blue_blink = 0\<rparr>"
    using st1
    by (simp add: store_def spec_output_def spec_winner_def spec_slot_state_def
          spec_render_def spec_blink_render_def f)
  then have p1: "physical ?s1
       = \<lparr>red_solid = 0, green_solid = 0, blue_solid = 0,
          red_blink = 1, green_blink = 0, blue_blink = 0\<rparr>"
    by (simp add: set_light_attention_output)
  have "writes_succeed ?s1 = writes_succeed (boot all_ok)"
    by (rule writes_succeed_io) simp
  then have ok1: "writes_succeed ?s1" by simp
  have st2: "store ?s2 = (unlit, unlit, unlit)" by (simp add: set_light_store g1)
  then have g2: "g_attention ?s2 = unlit" "g_notification ?s2 = unlit" "g_battery ?s2 = unlit"
    by (simp_all add: store_def)
  have p2: "physical ?s2
       = \<lparr>red_solid = 0, green_solid = 0, blue_solid = 0,
          red_blink = 1, green_blink = 0, blue_blink = 0\<rparr>"
    using attention_null_fallback [of unlit ?s1] ok1
    by (simp add: g1 p1)
  show ?thesis unfolding p2 g2 by (simp add: spec_solid_render_def)
qed

text \<open>
  C7. The three colour-channel calls return 0 in every state, whatever the operating
  system answers to the writes and whatever the device pointer is.
\<close>

theorem color_channels_return_zero:
  "fst (set_light_attention dev st s) = 0
   \<and> fst (set_light_notifications dev st s) = 0
   \<and> fst (set_light_battery dev st s) = 0"
  by (simp add: set_light_attention_def set_light_notifications_def set_light_battery_def
        Let_def)

text \<open>
  C9. With a NULL device \<^verbatim>\<open>set_speaker_light_locked\<close> returns -1 and changes nothing, so
  the arbitration performs no write when Attention or Notification wins, and performs
  exactly the three Battery writes when Battery wins. Each of the three calls still stores
  the state in its slot and returns 0; between taking and releasing the lock it performs
  the three Battery writes, or none.
\<close>

theorem null_device_skips_speaker:
  "set_speaker_light_locked None sto s = (- 1, s)
   \<and> handle_speaker_light_locked None s =
       (if spec_winner s = Battery
        then snd (set_battery_light_locked None (g_battery s) s) else s)
   \<and> trace (snd (set_battery_light_locked None b s)) =
       trace s @ [WriteInt RED_LED_FILE (spec_red b), WriteInt GREEN_LED_FILE (spec_green b),
                  WriteInt BLUE_LED_FILE (spec_blue b)]
   \<and> fst (set_light_attention None st s) = 0
   \<and> fst (set_light_notifications None st s) = 0
   \<and> fst (set_light_battery None st s) = 0
   \<and> store (snd (set_light_attention None st s)) = (st, g_notification s, g_battery s)
   \<and> store (snd (set_light_notifications None st s)) = (g_attention s, st, g_battery s)
   \<and> store (snd (set_light_battery None st s)) = (g_attention s, g_notification s, st)
   \<and> trace (snd (set_light_attention None st s)) =
       trace s @ [MutexLock G_lock]
       @ (if spec_winner (s\<lparr>g_attention := st\<rparr>) = Battery
          then [WriteInt RED_LED_FILE (spec_red (g_battery s)),
                WriteInt GREEN_LED_FILE (spec_green (g_battery s)),
                WriteInt BLUE_LED_FILE (spec_blue (g_battery s))]
          else [])
       @ [MutexUnlock G_lock]
   \<and> trace (snd (set_light_notifications None st s)) =
       trace s @ [MutexLock G_lock]
       @ (if spec_winner (s\<lparr>g_notification := st\<rparr>) = Battery
          then [WriteInt RED_LED_FILE (spec_red (g_battery s)),
                WriteInt GREEN_LED_FILE (spec_green (g_battery s)),
                WriteInt BLUE_LED_FILE (spec_blue (g_battery s))]
          else [])
       @ [MutexUnlock G_lock]
   \<and> trace (snd (set_light_battery None st s)) =
       trace s @ [MutexLock G_lock]
       @ (if spec_winner s = Battery
          then [WriteInt RED_LED_FILE (spec_red st), WriteInt GREEN_LED_FILE (spec_green st),
                WriteInt BLUE_LED_FILE (spec_blue st)]
          else [])
       @ [MutexUnlock G_lock]"
proof -
  have ta: "trace (snd (set_light_attention None st s)) =
       trace s @ [MutexLock G_lock]
       @ (if spec_winner (s\<lparr>g_attention := st\<rparr>) = Battery
          then [WriteInt RED_LED_FILE (spec_red (g_battery s)),
                WriteInt GREEN_LED_FILE (spec_green (g_battery s)),
                WriteInt BLUE_LED_FILE (spec_blue (g_battery s))]
          else [])
       @ [MutexUnlock G_lock]"
    by (simp add: set_light_attention_def Let_def handle_null battery_trace
          winner_cong [of "(pthread_mutex_lock G_lock s)\<lparr>g_attention := st\<rparr>"
                         "s\<lparr>g_attention := st\<rparr>"])
  have tn: "trace (snd (set_light_notifications None st s)) =
       trace s @ [MutexLock G_lock]
       @ (if spec_winner (s\<lparr>g_notification := st\<rparr>) = Battery
          then [WriteInt RED_LED_FILE (spec_red (g_battery s)),
                WriteInt GREEN_LED_FILE (spec_green (g_battery s)),
                WriteInt BLUE_LED_FILE (spec_blue (g_battery s))]
          else [])
       @ [MutexUnlock G_lock]"
    by (simp add: set_light_notifications_def Let_def handle_null battery_trace
          winner_cong [of "(pthread_mutex_lock G_lock s)\<lparr>g_notification := st\<rparr>"
                         "s\<lparr>g_notification := st\<rparr>"])
  have tb: "trace (snd (set_light_battery None st s)) =
       trace s @ [MutexLock G_lock]
       @ (if spec_winner s = Battery
          then [WriteInt RED_LED_FILE (spec_red st), WriteInt GREEN_LED_FILE (spec_green st),
                WriteInt BLUE_LED_FILE (spec_blue st)]
          else [])
       @ [MutexUnlock G_lock]"
    by (simp add: set_light_battery_def Let_def handle_null battery_trace
          winner_cong [of "(pthread_mutex_lock G_lock s)\<lparr>g_battery := st\<rparr>" s])
  have r: "fst (set_light_attention None st s) = 0" "fst (set_light_notifications None st s) = 0"
    "fst (set_light_battery None st s) = 0"
    by (simp_all add: set_light_attention_def set_light_notifications_def
          set_light_battery_def Let_def)
  from speaker_null [of sto s] handle_null [of s] battery_trace [of None b s] r
    set_light_store [of None st s] ta tn tb
  show ?thesis by blast
qed

theorem null_device_skips_speaker_witness:
  "spec_winner ((boot (\<lambda>n p. IoOk))\<lparr>g_battery := charging\<rparr>) = Battery
   \<and> spec_winner ((boot (\<lambda>n p. IoOk))\<lparr>g_attention := red_flash\<rparr>) \<noteq> Battery
   \<and> trace (snd (set_light_attention None red_flash (boot (\<lambda>n p. IoOk))))
       = [MutexLock G_lock, MutexUnlock G_lock]
   \<and> trace (snd (set_light_battery None charging (boot (\<lambda>n p. IoOk))))
       = [MutexLock G_lock, WriteInt RED_LED_FILE 17, WriteInt GREEN_LED_FILE 34,
          WriteInt BLUE_LED_FILE 51, MutexUnlock G_lock]
   \<and> fst (set_light_attention None red_flash (boot (\<lambda>n p. IoOk))) = 0
   \<and> g_attention (snd (set_light_attention None red_flash (boot (\<lambda>n p. IoOk)))) = red_flash"
proof -
  have w: "spec_winner ((boot (\<lambda>n p. IoOk))\<lparr>g_battery := charging\<rparr>) = Battery"
    "spec_winner ((boot (\<lambda>n p. IoOk))\<lparr>g_attention := red_flash\<rparr>) = Attention"
    "spec_winner (boot (\<lambda>n p. IoOk)) = Battery"
    by (simp_all add: spec_winner_def)
  from null_device_skips_speaker [of None "boot (\<lambda>n p. IoOk)" charging red_flash]
       null_device_skips_speaker [of None "boot (\<lambda>n p. IoOk)" charging charging] w
  show ?thesis by (simp add: store_def)
qed

text \<open>
  C10. \<^verbatim>\<open>set_light_backlight\<close> and \<^verbatim>\<open>set_light_buttons\<close> return what \<^verbatim>\<open>write_int\<close> returns
  for their sink: 0 when the write succeeds, minus the errno when \<^verbatim>\<open>open\<close> or \<^verbatim>\<open>write\<close>
  fails. With a positive errno (as POSIX has them) the result is 0 exactly when the write
  succeeds, and negative otherwise.
\<close>

theorem single_channels_propagate_errno:
  "fst (set_light_backlight dev st s) = outcome_code (io s (calls s) LCD_FILE)
   \<and> fst (set_light_buttons dev st s) = outcome_code (io s (calls s) BUTTONS_FILE)
   \<and> (errno_valid (io s (calls s) LCD_FILE) \<longrightarrow>
        (fst (set_light_backlight dev st s) = 0) = (io s (calls s) LCD_FILE = IoOk)
        \<and> (io s (calls s) LCD_FILE \<noteq> IoOk \<longrightarrow> fst (set_light_backlight dev st s) < 0))
   \<and> (errno_valid (io s (calls s) BUTTONS_FILE) \<longrightarrow>
        (fst (set_light_buttons dev st s) = 0) = (io s (calls s) BUTTONS_FILE = IoOk)
        \<and> (io s (calls s) BUTTONS_FILE \<noteq> IoOk \<longrightarrow> fst (set_light_buttons dev st s) < 0))"
  unfolding backlight_ret buttons_ret
  using outcome_code_zero outcome_code_neg by blast

theorem single_channels_propagate_errno_witness:
  "errno_valid (io (boot (\<lambda>n p. if p = LCD_FILE then OpenFails 13 else WriteFails 5)) 0 LCD_FILE)
   \<and> errno_valid (io (boot (\<lambda>n p. if p = LCD_FILE then OpenFails 13 else WriteFails 5)) 0
         BUTTONS_FILE)
   \<and> fst (set_light_backlight (Some 0) unlit
        (boot (\<lambda>n p. if p = LCD_FILE then OpenFails 13 else WriteFails 5))) = - 13
   \<and> fst (set_light_buttons (Some 0) unlit
        (boot (\<lambda>n p. if p = LCD_FILE then OpenFails 13 else WriteFails 5))) = - 5
   \<and> fst (set_light_backlight (Some 0) unlit (boot (\<lambda>n p. IoOk))) = 0"
  using single_channels_propagate_errno
          [of "Some 0" unlit "boot (\<lambda>n p. if p = LCD_FILE then OpenFails 13 else WriteFails 5)"]
        single_channels_propagate_errno [of "Some 0" unlit "boot (\<lambda>n p. IoOk)"]
  by (simp add: boot_def)

text \<open>
  C5. In an environment where the answer of each sink does not change with time (in
  particular when every write succeeds), a second call of \<^verbatim>\<open>set_light_attention\<close>,
  \<^verbatim>\<open>set_light_notifications\<close> or \<^verbatim>\<open>set_light_battery\<close> with the same state leaves the
  store and the physical output as the first call left them.
\<close>

theorem set_state_idempotent:
  assumes "stationary s"
  shows
  "store (snd (set_light_attention dev st (snd (set_light_attention dev st s))))
     = store (snd (set_light_attention dev st s))
   \<and> physical (snd (set_light_attention dev st (snd (set_light_attention dev st s))))
     = physical (snd (set_light_attention dev st s))
   \<and> store (snd (set_light_notifications dev st (snd (set_light_notifications dev st s))))
     = store (snd (set_light_notifications dev st s))
   \<and> physical (snd (set_light_notifications dev st (snd (set_light_notifications dev st s))))
     = physical (snd (set_light_notifications dev st s))
   \<and> store (snd (set_light_battery dev st (snd (set_light_battery dev st s))))
     = store (snd (set_light_battery dev st s))
   \<and> physical (snd (set_light_battery dev st (snd (set_light_battery dev st s))))
     = physical (snd (set_light_battery dev st s))"
proof -
  have "store (snd (set_light_attention dev st (snd (set_light_attention dev st s))))
     = store (snd (set_light_attention dev st s))"
    "store (snd (set_light_notifications dev st (snd (set_light_notifications dev st s))))
     = store (snd (set_light_notifications dev st s))"
    "store (snd (set_light_battery dev st (snd (set_light_battery dev st s))))
     = store (snd (set_light_battery dev st s))"
    by (simp_all add: set_light_store) (simp_all add: store_def set_light_attention_def
          set_light_notifications_def set_light_battery_def Let_def)
  with physical_cong [OF attention_twice [OF assms, of dev st]]
    physical_cong [OF notifications_twice [OF assms, of dev st]]
    physical_cong [OF battery_twice [OF assms, of dev st]]
  show ?thesis by blast
qed

theorem set_state_idempotent_witness:
  "stationary (boot (\<lambda>n p. if p = GREEN_LED_FILE then OpenFails 13 else IoOk))
   \<and> physical (snd (set_light_battery (Some 0) charging (snd (set_light_battery (Some 0) charging
        (boot (\<lambda>n p. if p = GREEN_LED_FILE then OpenFails 13 else IoOk))))))
     = physical (snd (set_light_battery (Some 0) charging
        (boot (\<lambda>n p. if p = GREEN_LED_FILE then OpenFails 13 else IoOk))))
   \<and> store (snd (set_light_battery (Some 0) charging (snd (set_light_battery (Some 0) charging
        (boot (\<lambda>n p. if p = GREEN_LED_FILE then OpenFails 13 else IoOk))))))
     = (unlit, unlit, charging)"
proof -
  let ?s = "boot (\<lambda>n p. if p = GREEN_LED_FILE then OpenFails 13 else IoOk)"
  have st: "stationary ?s" by (simp add: stationary_def)
  have "store (snd (set_light_battery (Some 0) charging ?s)) = (unlit, unlit, charging)"
    by (simp add: set_light_store)
  with set_state_idempotent [OF st, of "Some 0" charging] st show ?thesis by simp
qed

text \<open>
  C6. The claim of two lock instances does not hold: the file has one mutex, \<^verbatim>\<open>g_lock\<close>.
  As amended: each of the five \<^verbatim>\<open>set_light\<close> functions takes \<^verbatim>\<open>g_lock\<close>, then only writes
  to sinks, then releases \<^verbatim>\<open>g_lock\<close>; backlight and buttons calls are serialised with the
  colour-channel arbitration by that one lock.
\<close>

theorem one_lock_for_all_channels:
  "trace (snd (set_light_backlight dev st s)) =
     trace s @ [MutexLock G_lock, WriteInt LCD_FILE (rgb_to_brightness st), MutexUnlock G_lock]
   \<and> trace (snd (set_light_buttons dev st s)) =
     trace s @ [MutexLock G_lock, WriteInt BUTTONS_FILE (rgb_to_brightness st),
                MutexUnlock G_lock]
   \<and> (\<exists>es. trace (snd (set_light_attention dev st s)) =
              trace s @ [MutexLock G_lock] @ es @ [MutexUnlock G_lock]
            \<and> list_all is_write es)
   \<and> (\<exists>es. trace (snd (set_light_notifications dev st s)) =
              trace s @ [MutexLock G_lock] @ es @ [MutexUnlock G_lock]
            \<and> list_all is_write es)
   \<and> (\<exists>es. trace (snd (set_light_battery dev st s)) =
              trace s @ [MutexLock G_lock] @ es @ [MutexUnlock G_lock]
            \<and> list_all is_write es)"
proof -
  have b: "trace (snd (set_light_backlight dev st s)) =
     trace s @ [MutexLock G_lock, WriteInt LCD_FILE (rgb_to_brightness st), MutexUnlock G_lock]"
    "trace (snd (set_light_buttons dev st s)) =
     trace s @ [MutexLock G_lock, WriteInt BUTTONS_FILE (rgb_to_brightness st),
                MutexUnlock G_lock]"
    by (simp_all add: set_light_backlight_def set_light_buttons_def Let_def split_def)
  have a: "\<exists>es. trace (snd (set_light_attention dev st s)) =
              trace s @ [MutexLock G_lock] @ es @ [MutexUnlock G_lock]
            \<and> list_all is_write es"
    using color_channel_locked [of "\<lambda>u. u\<lparr>g_attention := st\<rparr>" dev s]
    by (simp add: set_light_attention_def Let_def)
  have n: "\<exists>es. trace (snd (set_light_notifications dev st s)) =
              trace s @ [MutexLock G_lock] @ es @ [MutexUnlock G_lock]
            \<and> list_all is_write es"
    using color_channel_locked [of "\<lambda>u. u\<lparr>g_notification := st\<rparr>" dev s]
    by (simp add: set_light_notifications_def Let_def)
  have c: "\<exists>es. trace (snd (set_light_battery dev st s)) =
              trace s @ [MutexLock G_lock] @ es @ [MutexUnlock G_lock]
            \<and> list_all is_write es"
    using color_channel_locked [of "\<lambda>u. u\<lparr>g_battery := st\<rparr>" dev s]
    by (simp add: set_light_battery_def Let_def)
  from b a n c show ?thesis by blast
qed

text \<open>
  At a concrete state the backlight call, the buttons call and the attention call all
  take the lock \<^verbatim>\<open>g_lock\<close>: the sets of locks they take are not disjoint.
\<close>

theorem separate_locks_counterexample:
  "locks_taken (trace (snd (set_light_backlight (Some 0) red_flash (boot all_ok)))) = [G_lock]
   \<and> locks_taken (trace (snd (set_light_buttons (Some 0) red_flash (boot all_ok)))) = [G_lock]
   \<and> locks_taken (trace (snd (set_light_attention (Some 0) red_flash (boot all_ok)))) = [G_lock]
   \<and> \<not> (set (locks_taken (trace (snd (set_light_backlight (Some 0) red_flash (boot all_ok)))))
          \<inter> set (locks_taken (trace (snd (set_light_attention (Some 0) red_flash (boot all_ok)))))
        = {})"
proof -
  have a: "spec_winner ((pthread_mutex_lock G_lock (boot all_ok))\<lparr>g_attention := red_flash\<rparr>)
             = Attention"
    by (simp add: spec_winner_def)
  have f: "flashOnMS red_flash \<noteq> 1" by (simp add: red_flash_def)
  have "locks_taken (trace (snd (set_light_attention (Some 0) red_flash (boot all_ok))))
          = [G_lock]"
    by (simp add: set_light_attention_def Let_def handle_winner a spec_slot_state_def
          speaker_trace clear_trace f)
  moreover have
    "locks_taken (trace (snd (set_light_backlight (Some 0) red_flash (boot all_ok)))) = [G_lock]"
    "locks_taken (trace (snd (set_light_buttons (Some 0) red_flash (boot all_ok)))) = [G_lock]"
    by (simp_all add: set_light_backlight_def set_light_buttons_def Let_def split_def)
  ultimately show ?thesis by simp
qed

text \<open>
  C8. The claim of one log entry per sink does not hold: \<^verbatim>\<open>already_warned\<close> is one flag for
  all paths. As amended: over any sequence of calls of \<^verbatim>\<open>write_int\<close>, while the flag is 0
  the error log gains exactly the path of the first call whose \<^verbatim>\<open>open\<close> fails, and nothing
  after it; once the flag is set it gains nothing, whatever sink fails; a failed
  \<^verbatim>\<open>write\<close> after a successful \<^verbatim>\<open>open\<close> is never logged. From process start the error log
  has at most one entry in total.
\<close>

theorem one_error_log_for_all_sinks:
  "(already_warned s = 0 \<longrightarrow>
      error_log (write_ints ws s) =
        error_log s @
        (case first_open_failure (io s) (calls s) ws of None \<Rightarrow> [] | Some p \<Rightarrow> [p]))
   \<and> (already_warned s \<noteq> 0 \<longrightarrow> error_log (write_ints ws s) = error_log s)
   \<and> length (error_log (write_ints ws (boot f))) \<le> 1"
proof -
  have "error_log (write_ints ws (boot f)) =
      error_log (boot f) @
        (case first_open_failure (io (boot f)) (calls (boot f)) ws of None \<Rightarrow> [] | Some p \<Rightarrow> [p])"
    by (rule write_ints_first) simp
  then have "length (error_log (write_ints ws (boot f))) \<le> 1"
    by (simp split: option.split)
  with write_ints_first [of s ws] write_ints_silent [of s ws] show ?thesis by blast
qed

theorem one_error_log_for_all_sinks_witness:
  "already_warned (boot no_sysfs) = 0
   \<and> already_warned (snd (write_int BLUE_LED_FILE 7 (boot no_sysfs))) \<noteq> 0
   \<and> error_log (write_ints [(RED_LED_FILE, 1), (GREEN_LED_FILE, 2), (RED_LED_FILE, 3)]
        (boot no_sysfs)) = [RED_LED_FILE]
   \<and> error_log (write_ints [(RED_LED_FILE, 1), (GREEN_LED_FILE, 2)]
        (snd (write_int BLUE_LED_FILE 7 (boot no_sysfs)))) = [BLUE_LED_FILE]"
proof -
  have a: "already_warned (boot no_sysfs) = 0" by simp
  have b: "already_warned (snd (write_int BLUE_LED_FILE 7 (boot no_sysfs))) \<noteq> 0"
    by (simp add: write_int_warned no_sysfs_def)
  have c: "error_log (snd (write_int BLUE_LED_FILE 7 (boot no_sysfs))) = [BLUE_LED_FILE]"
    by (simp add: write_int_error_log no_sysfs_def)
  from one_error_log_for_all_sinks
         [of "boot no_sysfs" "[(RED_LED_FILE, 1), (GREEN_LED_FILE, 2), (RED_LED_FILE, 3)]"]
       one_error_log_for_all_sinks
         [of "snd (write_int BLUE_LED_FILE 7 (boot no_sysfs))"
             "[(RED_LED_FILE, 1), (GREEN_LED_FILE, 2)]"]
       a b c
  show ?thesis by (simp add: no_sysfs_def)
qed

text \<open>
  With every \<^verbatim>\<open>open\<close> failing, a write to the red sink and then one to the green sink
  both fail, and only the red path is logged: the green sink gets no entry of its own.
\<close>

theorem per_sink_log_counterexample:
  "fst (write_int RED_LED_FILE 0 (boot no_sysfs)) = - 2
   \<and> fst (write_int GREEN_LED_FILE 0 (snd (write_int RED_LED_FILE 0 (boot no_sysfs)))) = - 2
   \<and> error_log (snd (write_int GREEN_LED_FILE 0 (snd (write_int RED_LED_FILE 0 (boot no_sysfs)))))
       = [RED_LED_FILE]
   \<and> GREEN_LED_FILE \<notin> set (error_log
         (snd (write_int GREEN_LED_FILE 0 (snd (write_int RED_LED_FILE 0 (boot no_sysfs))))))"
  by (simp add: write_int_fst write_int_error_log write_int_warned no_sysfs_def)

end
